theory Spec2Isabelle
  imports Main "HOL-Library.Signed_Division" "HOL-Library.Multiset"
begin

section \<open>Shared vocabulary: errors, JSON values, driver faults\<close>

text \<open>
  Go's \<open>error\<close> values. \<open>Errorf fmt args wrapped\<close> stands for
  \<open>fmt.Errorf(fmt, args...)\<close>; \<open>wrapped\<close> is the error passed for a \<open>%w\<close> verb
  (\<open>None\<close> when the format has none, so that \<open>errors.Is\<close> cannot see through it).
  \<open>DbError\<close> is any failure reported by the database driver or the broker client,
  \<open>UniqueViolation\<close> is SQLSTATE 23505, \<open>ErrNoRows\<close> is \<open>pgx.ErrNoRows\<close>, \<open>Panic\<close> is a
  run-time panic of the Go program.
\<close>

datatype error =
    ErrOrderNotFound
  | ErrOrderAlreadyPaid
  | ErrProductNotFound
  | ErrInsufficientStock
  | ErrNoRows
  | UniqueViolation
  | DbError string
  | JsonError string
  | Panic string
  | Errorf string "int list" "error option"

fun errors_Is :: "error \<Rightarrow> error \<Rightarrow> bool" where
  "errors_Is (Errorf f args (Some e)) target =
     (Errorf f args (Some e) = target \<or> errors_Is e target)"
| "errors_Is e target = (e = target)"

text \<open>
  JSON documents as \<open>encoding/json\<close> sees them. An object is an association list; a
  \<open>time.Time\<close> field is rendered by Go as an RFC 3339 string, kept here as \<open>JTime\<close> of
  the instant.
\<close>

datatype json =
    JNull
  | JBool bool
  | JNum int
  | JStr string
  | JTime int
  | JArr "json list"
  | JObj "(string \<times> json) list"

text \<open>Reading a key of an object; anything that is not an object has no keys.\<close>

fun json_get :: "json \<Rightarrow> string \<Rightarrow> json option" where
  "json_get (JObj kvs) k = map_of kvs k"
| "json_get _ k = None"

text \<open>\<open>m[k] = v\<close> on a Go map: replace the entry in place or add it.\<close>

fun map_set :: "(string \<times> json) list \<Rightarrow> string \<Rightarrow> json \<Rightarrow> (string \<times> json) list" where
  "map_set [] k v = [(k, v)]"
| "map_set ((k', v') # kvs) k v =
     (if k' = k then (k, v) # kvs else (k', v') # map_set kvs k v)"

text \<open>
  Decoding a document into a Go \<open>any\<close>, as \<open>json.Unmarshal\<close> does for the values of a
  \<open>map[string]any\<close>: every number becomes a \<open>float64\<close>, every object a map. \<open>JNum\<close>
  holds integers, the only numbers the services write; \<open>float64_round\<close> is the
  rounding of a natural number to a 53-bit significand, to nearest and ties to even,
  and a number whose rounding reaches \<open>2 ^ 1024\<close> is out of the range of \<open>float64\<close>. A
  map keeps one value per key, the last one decoded.
\<close>

function bit_length :: "nat \<Rightarrow> nat" where
  "bit_length n = (if n = 0 then 0 else Suc (bit_length (n div 2)))"
  by pat_completeness auto
termination
  by (relation "measure (\<lambda>n. n)") auto

declare bit_length.simps [simp del]

definition float64_round :: "nat \<Rightarrow> nat" where
  "float64_round m =
     (if m < 9007199254740992 then m
      else (let e = bit_length m - 53; q = m div 2 ^ e; r = m mod 2 ^ e; half = 2 ^ (e - 1)
            in (if half < r \<or> (r = half \<and> odd q) then q + 1 else q) * 2 ^ e))"

definition float64_of_int :: "int \<Rightarrow> int option" where
  "float64_of_int n =
     (if float64_round (nat \<bar>n\<bar>) < 2 ^ 1024
      then Some (sgn n * int (float64_round (nat \<bar>n\<bar>)))
      else None)"

definition keep_last :: "(string \<times> json) list \<Rightarrow> (string \<times> json) list" where
  "keep_last kvs = foldl (\<lambda>m kv. map_set m (fst kv) (snd kv)) [] kvs"

fun json_numbers :: "json \<Rightarrow> int list" where
  "json_numbers (JNum n) = [n]"
| "json_numbers (JArr xs) = concat (map json_numbers xs)"
| "json_numbers (JObj kvs) = concat (map (\<lambda>kv. json_numbers (snd kv)) kvs)"
| "json_numbers _ = []"

fun json_any :: "json \<Rightarrow> json" where
  "json_any (JNum n) = JNum (case float64_of_int n of Some x \<Rightarrow> x | None \<Rightarrow> n)"
| "json_any (JArr xs) = JArr (map json_any xs)"
| "json_any (JObj kvs) = JObj (keep_last (map (\<lambda>kv. (fst kv, json_any (snd kv))) kvs))"
| "json_any v = v"

text \<open>The name \<open>encoding/json\<close> gives the kind of a value in its type errors.\<close>

fun json_kind :: "json \<Rightarrow> string" where
  "json_kind JNull = ''null''"
| "json_kind (JBool b) = ''bool''"
| "json_kind (JNum n) = ''number''"
| "json_kind (JStr s) = ''string''"
| "json_kind (JTime t) = ''string''"
| "json_kind (JArr xs) = ''array''"
| "json_kind (JObj kvs) = ''object''"

text \<open>
  Every call into the database driver can fail for reasons outside the program
  (connection loss, cancelled context). A value of type \<open>faults\<close> tells, for the call
  site of that name, whether the driver fails (\<open>Some err\<close>) or the statement runs with
  its SQL meaning (\<open>None\<close>).
\<close>

type_synonym faults = "string \<Rightarrow> error option"

definition no_faults :: faults where
  "no_faults = (\<lambda>_. None)"

text \<open>The verb \<open>%d\<close> of \<open>fmt.Sprintf\<close>: the decimal digits of an integer.\<close>

function show_nat :: "nat \<Rightarrow> string" where
  "show_nat n =
     (if n < 10 then [char_of (48 + n)]
      else show_nat (n div 10) @ [char_of (48 + n mod 10)])"
  by pat_completeness auto
termination
  by (relation "measure (\<lambda>n. n)") auto

declare show_nat.simps [simp del]

definition show_int :: "int \<Rightarrow> string" where
  "show_int i = (if i < 0 then CHR ''-'' # show_nat (nat (- i)) else show_nat (nat i))"

section \<open>The outbox table (pkg/outbox)\<close>

record OutboxEvent =
  Id :: int
  AggregateType :: string
  AggregateID :: string
  EventType :: string
  Payload :: json
  Headers :: json
  CreatedAt :: int
  PublishedAt :: "int option"
  Attempts :: int
  LastError :: "string option"
  Topic :: string

text \<open>
  The table \<open>outbox\<close>: its rows and the next value of the \<open>BIGSERIAL\<close> sequence behind
  \<open>id\<close>.
\<close>

record outbox_tbl =
  rows :: "OutboxEvent list"
  seq :: int

text \<open>
  \<open>SaveOutboxEvent\<close>: \<open>INSERT INTO outbox (aggregate_type, aggregate_id, event_type,
  payload, topic)\<close>. The other columns take the defaults of the migration:
  \<open>headers = '{}'\<close>, \<open>created_at = NOW()\<close>, \<open>published_at = NULL\<close>, \<open>attempts = 0\<close>,
  \<open>last_error = NULL\<close>.
\<close>

definition SaveOutboxEvent ::
  "faults \<Rightarrow> int \<Rightarrow> outbox_tbl \<Rightarrow> OutboxEvent \<Rightarrow> error + outbox_tbl" where
  "SaveOutboxEvent io now tbl event =
     (case io ''SaveOutboxEvent'' of
        Some err \<Rightarrow> Inl err
      | None \<Rightarrow>
          Inr (tbl\<lparr>rows := rows tbl @
                  [\<lparr>Id = seq tbl,
                    AggregateType = AggregateType event,
                    AggregateID = AggregateID event,
                    EventType = EventType event,
                    Payload = Payload event,
                    Headers = JObj [],
                    CreatedAt = now,
                    PublishedAt = None,
                    Attempts = 0,
                    LastError = None,
                    Topic = Topic event\<rparr>],
                seq := seq tbl + 1\<rparr>))"

text \<open>The zero value of the Go struct, the starting point of a composite literal.\<close>

definition OutboxEvent_zero :: OutboxEvent where
  "OutboxEvent_zero =
     \<lparr>Id = 0, AggregateType = [], AggregateID = [], EventType = [], Payload = JNull,
      Headers = JNull, CreatedAt = 0, PublishedAt = None, Attempts = 0, LastError = None,
      Topic = []\<rparr>"

text \<open>The text of an error (\<open>err.Error()\<close>); formatting verbs are left as written.\<close>

fun Error_text :: "error \<Rightarrow> string" where
  "Error_text ErrOrderNotFound = ''order not found''"
| "Error_text ErrOrderAlreadyPaid = ''order already paid''"
| "Error_text ErrProductNotFound = ''product not found''"
| "Error_text ErrInsufficientStock = ''insufficient stock''"
| "Error_text ErrNoRows = ''no rows in result set''"
| "Error_text UniqueViolation = ''duplicate key value violates unique constraint''"
| "Error_text (DbError s) = s"
| "Error_text (JsonError s) = s"
| "Error_text (Panic s) = s"
| "Error_text (Errorf f args w) = f"

text \<open>The column \<open>attempts\<close> is a 32-bit \<open>INT\<close>: an update that leaves its range fails.\<close>

definition int32_ok :: "int \<Rightarrow> bool" where
  "int32_ok x = (- 2147483648 \<le> x \<and> x \<le> 2147483647)"

text \<open>
  \<open>MarkEventFailed\<close>: \<open>UPDATE outbox SET published_at = NULL, last_error = $1,
  attempts = attempts + 1 WHERE id = $2\<close>.
\<close>

definition MarkEventFailed ::
  "faults \<Rightarrow> outbox_tbl \<Rightarrow> int \<Rightarrow> string \<Rightarrow> error + outbox_tbl" where
  "MarkEventFailed io tbl eventID errMsg =
     (case io ''MarkEventFailed'' of
        Some err \<Rightarrow> Inl err
      | None \<Rightarrow>
          if list_ex (\<lambda>r. Id r = eventID \<and> \<not> int32_ok (Attempts r + 1)) (rows tbl)
          then Inl (DbError ''integer out of range'')
          else Inr (tbl\<lparr>rows :=
                 map (\<lambda>r. if Id r = eventID
                           then r\<lparr>PublishedAt := None, LastError := Some errMsg,
                                  Attempts := Attempts r + 1\<rparr>
                           else r) (rows tbl)\<rparr>))"

text \<open>
  \<open>MarkEventPublished\<close>: \<open>UPDATE outbox SET published_at = NOW(), last_error = NULL
  WHERE id = $1\<close>.
\<close>

definition MarkEventPublished ::
  "faults \<Rightarrow> int \<Rightarrow> outbox_tbl \<Rightarrow> int \<Rightarrow> error + outbox_tbl" where
  "MarkEventPublished io now tbl eventID =
     (case io ''MarkEventPublished'' of
        Some err \<Rightarrow> Inl err
      | None \<Rightarrow>
          Inr (tbl\<lparr>rows :=
                 map (\<lambda>r. if Id r = eventID
                           then r\<lparr>PublishedAt := Some now, LastError := None\<rparr>
                           else r) (rows tbl)\<rparr>))"

text \<open>
  \<open>MarkEventUnpublished\<close>: \<open>UPDATE outbox SET published_at = NULL, last_error = NULL
  WHERE id = $1\<close>.
\<close>

definition MarkEventUnpublished ::
  "faults \<Rightarrow> outbox_tbl \<Rightarrow> int \<Rightarrow> error + outbox_tbl" where
  "MarkEventUnpublished io tbl eventID =
     (case io ''MarkEventUnpublished'' of
        Some err \<Rightarrow> Inl err
      | None \<Rightarrow>
          Inr (tbl\<lparr>rows :=
                 map (\<lambda>r. if Id r = eventID
                           then r\<lparr>PublishedAt := None, LastError := None\<rparr>
                           else r) (rows tbl)\<rparr>))"

text \<open>
  \<open>GetUnpublishedEvents\<close>:
  \<^verbatim>\<open>SELECT id, aggregate_type, aggregate_id, event_type, payload, headers, created_at, topic
  FROM outbox WHERE published_at IS NULL AND attempts < 10
  ORDER BY created_at ASC LIMIT $1 FOR UPDATE SKIP LOCKED\<close>

  \<open>selectable\<close> is the row filter: the \<open>WHERE\<close> clause, and \<open>SKIP LOCKED\<close>, which passes
  over the rows whose ids are in \<open>locked\<close>, the rows another transaction holds a lock
  on at the time of the call (empty when this relay runs alone). SQL leaves the order
  of rows with equal \<open>created_at\<close> open; the model keeps them in table order. A
  negative \<open>LIMIT\<close> is an error of the statement. Only the eight selected columns are
  scanned: the other fields of a returned event have their zero values.
\<close>

definition selectable :: "int set \<Rightarrow> OutboxEvent \<Rightarrow> bool" where
  "selectable locked r = (PublishedAt r = None \<and> Attempts r < 10 \<and> Id r \<notin> locked)"

definition scan_event :: "OutboxEvent \<Rightarrow> OutboxEvent" where
  "scan_event r =
     OutboxEvent_zero\<lparr>Id := Id r, AggregateType := AggregateType r,
       AggregateID := AggregateID r, EventType := EventType r, Payload := Payload r,
       Headers := Headers r, CreatedAt := CreatedAt r, Topic := Topic r\<rparr>"

definition select_unpublished :: "int set \<Rightarrow> outbox_tbl \<Rightarrow> nat \<Rightarrow> OutboxEvent list" where
  "select_unpublished locked tbl n =
     take n (sort_key CreatedAt (filter (selectable locked) (rows tbl)))"

definition GetUnpublishedEvents ::
  "faults \<Rightarrow> int set \<Rightarrow> outbox_tbl \<Rightarrow> int \<Rightarrow> error + OutboxEvent list" where
  "GetUnpublishedEvents io locked tbl batchSize =
     (case io ''GetUnpublishedEvents'' of
        Some err \<Rightarrow> Inl (Errorf ''failed to query unpublished events: %w'' [] (Some err))
      | None \<Rightarrow>
          if batchSize < 0
          then Inl (Errorf ''failed to query unpublished events: %w'' []
                      (Some (DbError ''LIMIT must not be negative'')))
          else (case io ''GetUnpublishedEvents.Scan'' of
                  Some err \<Rightarrow> Inl (Errorf ''error scanning event: %w'' [] (Some err))
                | None \<Rightarrow>
                    Inr (map scan_event (select_unpublished locked tbl (nat batchSize)))))"

section \<open>The relay worker (pkg/outbox/worker)\<close>

record OutboxProcessor =
  batchSize :: int
  interval_ms :: int

definition NewOutboxProcessor :: OutboxProcessor where
  "NewOutboxProcessor = \<lparr>batchSize = 50, interval_ms = 500\<rparr>"

text \<open>A message the broker acknowledged: its topic and its JSON value.\<close>

record broker_msg =
  msg_topic :: string
  msg_value :: json

text \<open>
  \<open>json.Unmarshal(event.Payload, &payloadMap)\<close> with \<open>payloadMap\<close> a nil
  \<open>map[string]any\<close>. The column is \<open>JSONB\<close>, so the bytes are a JSON document. An
  object fills the map, its values decoded into \<open>any\<close>; a number of the object that is
  out of the range of \<open>float64\<close> is an error, the first such number being named in it.
  \<open>null\<close> leaves the map nil without an error. Every other document is a type error
  that names the kind of the document.
\<close>

definition json_Unmarshal_map :: "json \<Rightarrow> error + (string \<times> json) list option" where
  "json_Unmarshal_map doc =
     (case doc of
        JObj kvs \<Rightarrow>
          (case filter (\<lambda>n. float64_of_int n = None) (json_numbers doc) of
             n # _ \<Rightarrow>
               Inl (JsonError (''json: cannot unmarshal number '' @ show_int n @
                               '' into Go value of type float64''))
           | [] \<Rightarrow> Inr (Some (keep_last (map (\<lambda>kv. (fst kv, json_any (snd kv))) kvs))))
      | JNull \<Rightarrow> Inr None
      | _ \<Rightarrow>
          Inl (JsonError (''json: cannot unmarshal '' @ json_kind doc @
                          '' into Go value of type map[string]interface {}'')))"

text \<open>
  The body of the \<open>for _, event := range events\<close> loop of \<open>processBatch\<close>, as a
  recursion over the selected events. The state is the transaction's view of the table
  and the messages acknowledged so far. \<open>produce topic message\<close> is the outcome of
  \<open>kafkaProducer.ProduceMessage\<close>; \<open>io_ev\<close> gives the driver faults of the one marking
  call made for the event of that id. The first component of the result is \<open>None\<close> when
  the loop runs to its end and \<open>Some ret\<close> when it leaves the function early with
  \<open>ret\<close>: the \<open>return err\<close> after a failed \<open>MarkEventPublished\<close> returns the nil \<open>err\<close>
  of the successful \<open>ProduceMessage\<close>, and writing \<open>event_id\<close> into a nil map panics.
\<close>

fun process_events ::
  "(int \<Rightarrow> faults) \<Rightarrow> (string \<Rightarrow> json \<Rightarrow> error option) \<Rightarrow> int \<Rightarrow> OutboxEvent list \<Rightarrow>
   outbox_tbl \<Rightarrow> broker_msg list \<Rightarrow> error option option \<times> outbox_tbl \<times> broker_msg list" where
  "process_events io_ev produce now [] tx sent = (None, tx, sent)"
| "process_events io_ev produce now (event # events) tx sent =
     (case json_Unmarshal_map (Payload event) of
        Inl err \<Rightarrow>
          (case MarkEventFailed (io_ev (Id event)) tx (Id event) (Error_text err) of
             Inl dbErr \<Rightarrow> process_events io_ev produce now events tx sent
           | Inr tx' \<Rightarrow> process_events io_ev produce now events tx' sent)
      | Inr None \<Rightarrow> (Some (Some (Panic ''assignment to entry in nil map'')), tx, sent)
      | Inr (Some payloadMap) \<Rightarrow>
          (case produce (Topic event)
                  (JObj (map_set payloadMap ''event_id'' (JNum (Id event)))) of
             Some err \<Rightarrow>
               (case MarkEventFailed (io_ev (Id event)) tx (Id event) (Error_text err) of
                  Inl dbErr \<Rightarrow> process_events io_ev produce now events tx sent
                | Inr tx' \<Rightarrow> process_events io_ev produce now events tx' sent)
           | None \<Rightarrow>
               (case MarkEventPublished (io_ev (Id event)) now tx (Id event) of
                  Inl dbErr \<Rightarrow>
                    (Some None, tx,
                     sent @ [\<lparr>msg_topic = Topic event,
                              msg_value = JObj (map_set payloadMap ''event_id''
                                                  (JNum (Id event)))\<rparr>])
                | Inr tx' \<Rightarrow>
                    process_events io_ev produce now events tx'
                      (sent @ [\<lparr>msg_topic = Topic event,
                                msg_value = JObj (map_set payloadMap ''event_id''
                                                    (JNum (Id event)))\<rparr>]))))"

text \<open>
  \<open>OutboxProcessor.processBatch\<close>, one relay tick. The result is the returned error,
  the committed table and the messages the broker acknowledged during the tick. Every
  return but the one after a successful \<open>tx.Commit\<close> leaves the table as it was (the
  deferred rollback; after a panic, the lost connection).
\<close>

definition processBatch ::
  "OutboxProcessor \<Rightarrow> faults \<Rightarrow> (int \<Rightarrow> faults) \<Rightarrow> (string \<Rightarrow> json \<Rightarrow> error option) \<Rightarrow>
   int \<Rightarrow> int set \<Rightarrow> outbox_tbl \<Rightarrow> error option \<times> outbox_tbl \<times> broker_msg list" where
  "processBatch p io io_ev produce now locked tbl =
     (case io ''Begin'' of
        Some err \<Rightarrow> (Some (Errorf ''error beginning transaction: %w'' [] (Some err)), tbl, [])
      | None \<Rightarrow>
         (case GetUnpublishedEvents io locked tbl (batchSize p) of
            Inl err \<Rightarrow> (Some err, tbl, [])
          | Inr events \<Rightarrow>
              if length events = 0 then (None, tbl, [])
              else (case process_events io_ev produce now events tbl [] of
                      (Some ret, tx, sent) \<Rightarrow> (ret, tbl, sent)
                    | (None, tx, sent) \<Rightarrow>
                        (case io ''Commit'' of
                           Some err \<Rightarrow> (Some err, tbl, sent)
                         | None \<Rightarrow> (None, tx, sent)))))"

text \<open>
  What can happen to an outbox table over time: relay ticks, under any faults, broker
  outcomes and foreign locks, committed inserts by the service's handlers, and the
  repository's explicit re-queue of a row.
\<close>

inductive outbox_reach :: "outbox_tbl \<Rightarrow> outbox_tbl \<Rightarrow> bool" where
  reach_refl: "outbox_reach t t"
| reach_tick:
    "outbox_reach t t' \<Longrightarrow>
     processBatch NewOutboxProcessor io io_ev produce now locked t' = (err, t'', sent) \<Longrightarrow>
     outbox_reach t t''"
| reach_save:
    "outbox_reach t t' \<Longrightarrow> SaveOutboxEvent io now t' event = Inr t'' \<Longrightarrow>
     outbox_reach t t''"
| reach_unpublish:
    "outbox_reach t t' \<Longrightarrow> MarkEventUnpublished io t' eventID = Inr t'' \<Longrightarrow>
     outbox_reach t t''"

text \<open>Ids come from the sequence: every row's id is below the next value.\<close>

definition ids_from_seq :: "outbox_tbl \<Rightarrow> bool" where
  "ids_from_seq tbl = list_all (\<lambda>r. Id r < seq tbl) (rows tbl)"

text \<open>The attempts recorded for the rows of an id.\<close>

definition attempts_of :: "outbox_tbl \<Rightarrow> int \<Rightarrow> int list" where
  "attempts_of tbl i = map Attempts (filter (\<lambda>r. Id r = i) (rows tbl))"

text \<open>
  A row is dead-lettered when its attempts have reached 10: the table has a row of
  that id, and every row of that id has at least 10 attempts.
\<close>

definition dead_lettered :: "outbox_tbl \<Rightarrow> int \<Rightarrow> bool" where
  "dead_lettered t i =
     (attempts_of t i \<noteq> [] \<and> list_all (\<lambda>a. 10 \<le> a) (attempts_of t i))"

text \<open>
  The relation between a table and a later state of it in which the rows are the same
  rows, by id and position, and no row has fewer attempts.
\<close>

definition grows :: "outbox_tbl \<Rightarrow> outbox_tbl \<Rightarrow> bool" where
  "grows t t' =
     (seq t' = seq t \<and>
      list_all2 (\<lambda>r r'. Id r' = Id r \<and> Attempts r \<le> Attempts r') (rows t) (rows t'))"

text \<open>
  An outbox with a published row, a row that has used its ten attempts and two rows
  waiting for the relay, the later one first in the table.
\<close>

definition outbox_example :: outbox_tbl where
  "outbox_example =
     \<lparr>rows =
        [OutboxEvent_zero\<lparr>Id := 1, Payload := JObj [], CreatedAt := 10, PublishedAt := Some 11\<rparr>,
         OutboxEvent_zero\<lparr>Id := 2, Payload := JObj [], CreatedAt := 20, Attempts := 10\<rparr>,
         OutboxEvent_zero\<lparr>Id := 4, Payload := JObj [], CreatedAt := 40, Attempts := 3\<rparr>,
         OutboxEvent_zero\<lparr>Id := 3, Payload := JObj [], CreatedAt := 30\<rparr>],
      seq = 5\<rparr>"

text \<open>
  A relay tick on that outbox during which the broker refuses every message, and the
  outbox it leaves.
\<close>

definition outbox_example_tick :: "error option \<times> outbox_tbl \<times> broker_msg list" where
  "outbox_example_tick =
     processBatch NewOutboxProcessor no_faults (\<lambda>i. no_faults)
       (\<lambda>topic message. Some (DbError ''error sending message'')) 50 {} outbox_example"

definition outbox_example_later :: outbox_tbl where
  "outbox_example_later = fst (snd outbox_example_tick)"

section \<open>Inbox deduplication (pkg/outbox/utils)\<close>

text \<open>
  What \<open>ProcessWithDeduplication\<close> does to the outside world, in order: the \<open>n\<close>-th
  call of the action (counted from 0) and \<open>time.Sleep\<close> with its duration in
  milliseconds.
\<close>

datatype effect = RunAction nat | Sleep nat





text \<open>The calls of the action among the effects, and those that succeeded.\<close>

definition runs :: "effect list \<Rightarrow> nat list" where
  "runs effects = concat (map (\<lambda>e. case e of RunAction n \<Rightarrow> [n] | Sleep d \<Rightarrow> []) effects)"





section \<open>The consumer loop (saramaHandler.ConsumeClaim)\<close>








section \<open>Order service\<close>

record order_row =
  order_id :: int
  order_user_id :: int
  order_status :: string
  order_total_sum :: int

record OrderItem =
  item_ID :: int
  item_OrderID :: int
  item_ProductID :: int
  item_Name :: string
  item_Price :: int
  item_Quantity :: int

record order_db =
  orders :: "order_row list"
  order_items :: "OrderItem list"
  order_outbox :: outbox_tbl

record PaymentFailedEvent =
  pf_OrderID :: int
  pf_PaymentID :: int
  pf_Amount :: int
  pf_FailedAt :: int

text \<open>
  \<open>orderRepo.ChangeOrderStatus\<close>: \<open>UPDATE orders SET status = $1 WHERE id = $2\<close>. The
  statement has no condition on the current status; zero affected rows is
  \<open>ErrOrderNotFound\<close>.
\<close>

definition ChangeOrderStatus ::
  "faults \<Rightarrow> order_row list \<Rightarrow> int \<Rightarrow> string \<Rightarrow> error + order_row list" where
  "ChangeOrderStatus io tbl orderID status =
     (case io ''ChangeOrderStatus'' of
        Some err \<Rightarrow> Inl (Errorf ''failed to update order: %w'' [] (Some err))
      | None \<Rightarrow>
          if length (filter (\<lambda>r. order_id r = orderID) tbl) = 0
          then Inl ErrOrderNotFound
          else Inr (map (\<lambda>r. if order_id r = orderID
                              then r\<lparr>order_status := status\<rparr> else r) tbl))"

text \<open>
  \<open>orderRepo.GetAllItemsOfOrder\<close>: \<open>SELECT id, product_id, name, price, quantity FROM
  order_items WHERE order_id = $1\<close>. The column \<open>order_id\<close> is not scanned, so the
  field \<open>OrderID\<close> of every returned item keeps its zero value.
\<close>

definition GetAllItemsOfOrder ::
  "faults \<Rightarrow> OrderItem list \<Rightarrow> int \<Rightarrow> error + OrderItem list" where
  "GetAllItemsOfOrder io tbl orderID =
     (case io ''GetAllItemsOfOrder'' of
        Some err \<Rightarrow> Inl err
      | None \<Rightarrow>
          Inr (map (\<lambda>r. r\<lparr>item_OrderID := 0\<rparr>)
                 (filter (\<lambda>r. item_OrderID r = orderID) tbl)))"

text \<open>
  \<open>json.Marshal\<close> of \<open>generalDomain.OrderItem\<close> (no json tags: the keys are the Go
  field names) and of \<open>OrderCancelledEvent\<close>. A nil slice is rendered as \<open>null\<close>.
\<close>

definition OrderItem_json :: "OrderItem \<Rightarrow> json" where
  "OrderItem_json i =
     JObj [(''ID'', JNum (item_ID i)), (''OrderID'', JNum (item_OrderID i)),
           (''ProductID'', JNum (item_ProductID i)), (''Name'', JStr (item_Name i)),
           (''Price'', JNum (item_Price i)), (''Quantity'', JNum (item_Quantity i))]"

definition OrderCancelledEvent_json :: "int \<Rightarrow> OrderItem list \<Rightarrow> json" where
  "OrderCancelledEvent_json orderID items =
     JObj [(''order_id'', JNum orderID),
           (''items'', if items = [] then JNull else JArr (map OrderItem_json items))]"

text \<open>
  \<open>orderService.emitEvent\<close>: wraps the payload in the envelope and stores the envelope
  as the outbox row's payload, on topic \<open>payment_events\<close>; no other field of the
  outbox event is set. (\<open>json.Marshal\<close> of the wrapper cannot fail for the payloads the
  service passes, so that branch is left out.)
\<close>

definition order_emitEvent ::
  "faults \<Rightarrow> int \<Rightarrow> outbox_tbl \<Rightarrow> string \<Rightarrow> json \<Rightarrow> error + outbox_tbl" where
  "order_emitEvent io now tbl eventType payload =
     SaveOutboxEvent io now tbl
       (OutboxEvent_zero\<lparr>Topic := ''payment_events'',
          Payload := JObj [(''event'', JStr eventType), (''payload'', payload)]\<rparr>)"

text \<open>
  \<open>orderService.CancelOrder\<close>, the handler of \<open>PaymentFailed\<close>. The result is the Go
  error (\<open>None\<close> for nil) and the committed database: every return before
  \<open>tx.Commit\<close> succeeds runs the deferred rollback, which restores the tables (the
  sequence keeps the values it handed out).
\<close>

definition CancelOrder ::
  "faults \<Rightarrow> int \<Rightarrow> order_db \<Rightarrow> PaymentFailedEvent \<Rightarrow> error option \<times> order_db" where
  "CancelOrder io now db event =
     (case io ''Begin'' of
        Some err \<Rightarrow> (Some err, db)
      | None \<Rightarrow>
         (case ChangeOrderStatus io (orders db) (pf_OrderID event) ''cancelled'' of
            Inl err \<Rightarrow>
              if errors_Is err ErrOrderNotFound
              then (Some (Errorf ''order %d not found'' [pf_OrderID event] None), db)
              else (Some (Errorf ''failed to cancel order: %w'' [] (Some err)), db)
          | Inr orders' \<Rightarrow>
             (case GetAllItemsOfOrder io (order_items db) (pf_OrderID event) of
                Inl err \<Rightarrow>
                  (Some (Errorf ''failed to query items of order: %w'' [] (Some err)), db)
              | Inr orderItems \<Rightarrow>
                 (case order_emitEvent io now (order_outbox db) ''OrderCancelled''
                         (OrderCancelledEvent_json (pf_OrderID event) orderItems) of
                    Inl err \<Rightarrow>
                      (Some (Errorf ''failed to emit event: %w'' [] (Some err)), db)
                  | Inr outbox' \<Rightarrow>
                     (case io ''Commit'' of
                        Some err \<Rightarrow>
                          (Some err,
                           db\<lparr>order_outbox :=
                                (order_outbox db)\<lparr>seq := seq outbox'\<rparr>\<rparr>)
                      | None \<Rightarrow>
                          (None, db\<lparr>orders := orders', order_outbox := outbox'\<rparr>))))))"

text \<open>
  The outbox event \<open>orderService.CreateOrder\<close> builds once the order row has its id:
  the envelope with \<open>orderData\<close> as payload, where \<open>event_id\<close> is set to the order's
  id. \<open>items\<close> are the (product id, quantity) pairs of the request.
\<close>

definition CreateOrder_outboxEvent :: "int \<Rightarrow> int \<Rightarrow> (int \<times> int) list \<Rightarrow> OutboxEvent" where
  "CreateOrder_outboxEvent orderID userID items =
     OutboxEvent_zero\<lparr>AggregateType := ''Order'', AggregateID := show_int orderID,
       EventType := ''OrderCreated'',
       Payload :=
         JObj [(''event'', JStr ''OrderCreated''),
               (''payload'',
                JObj [(''order_id'', JNum orderID), (''event_id'', JNum orderID),
                      (''user_id'', JNum userID),
                      (''items'',
                       JArr (map (\<lambda>(productID, quantity).
                                    JObj [(''product_id'', JNum productID),
                                          (''quantity'', JNum quantity)]) items))])],
       Headers := JNull, Topic := ''order_events''\<rparr>"

text \<open>The status of an order, and the outbox rows announcing its cancellation.\<close>

definition status_of :: "order_db \<Rightarrow> int \<Rightarrow> string list" where
  "status_of db orderID =
     map order_status (filter (\<lambda>r. order_id r = orderID) (orders db))"

definition is_OrderCancelled_for :: "int \<Rightarrow> OutboxEvent \<Rightarrow> bool" where
  "is_OrderCancelled_for orderID e =
     (json_get (Payload e) ''event'' = Some (JStr ''OrderCancelled'') \<and>
      (case json_get (Payload e) ''payload'' of
         Some p \<Rightarrow> json_get p ''order_id'' = Some (JNum orderID)
       | None \<Rightarrow> False))"

definition OrderCancelled_rows :: "order_db \<Rightarrow> int \<Rightarrow> OutboxEvent list" where
  "OrderCancelled_rows db orderID =
     filter (is_OrderCancelled_for orderID) (rows (order_outbox db))"

text \<open>
  The order service's \<open>ChangeOrderStatus\<close>, the handler of \<open>PaymentSucceeded\<close>: the same
  unconditional update, to \<open>paid\<close>.
\<close>

definition ChangeOrderStatus_service ::
  "faults \<Rightarrow> order_db \<Rightarrow> int \<Rightarrow> error option \<times> order_db" where
  "ChangeOrderStatus_service io db orderID =
     (case io ''Begin'' of
        Some err \<Rightarrow> (Some (Errorf ''failed to begin transaction'' [] None), db)
      | None \<Rightarrow>
         (case ChangeOrderStatus io (orders db) orderID ''paid'' of
            Inl err \<Rightarrow>
              if errors_Is err ErrOrderNotFound
              then (Some (Errorf ''order %d not found'' [orderID] None), db)
              else (Some (Errorf ''failed to update order status: %w'' [] (Some err)), db)
          | Inr orders' \<Rightarrow>
             (case io ''Commit'' of
                Some err \<Rightarrow>
                  (Some (Errorf ''failed to commit transaction: %w'' [] (Some err)), db)
              | None \<Rightarrow> (None, db\<lparr>orders := orders'\<rparr>))))"

text \<open>
  The database of the order test suite after \<open>createOrder\<close>: the order of user 999
  with one item (product 1, price 5350, quantity 1) and its \<open>OrderCreated\<close> row in the
  outbox.
\<close>

definition order_db_new :: order_db where
  "order_db_new =
     \<lparr>orders = [\<lparr>order_id = 1, order_user_id = 999, order_status = ''new'',
                 order_total_sum = 5350\<rparr>],
      order_items = [\<lparr>item_ID = 1, item_OrderID = 1, item_ProductID = 1,
                      item_Name = ''Kuronami No Yaiba'', item_Price = 5350,
                      item_Quantity = 1\<rparr>],
      order_outbox =
        (case SaveOutboxEvent no_faults 0 \<lparr>rows = [], seq = 1\<rparr>
                (CreateOrder_outboxEvent 1 999 [(1, 1)]) of
           Inr t \<Rightarrow> t
         | Inl err \<Rightarrow> \<lparr>rows = [], seq = 1\<rparr>)\<rparr>"

definition PaymentFailed_1 :: PaymentFailedEvent where
  "PaymentFailed_1 =
     \<lparr>pf_OrderID = 1, pf_PaymentID = 999, pf_Amount = 999, pf_FailedAt = 0\<rparr>"

definition order_db_paid :: order_db where
  "order_db_paid = snd (ChangeOrderStatus_service no_faults order_db_new 1)"

definition order_db_cancelled :: order_db where
  "order_db_cancelled = snd (CancelOrder no_faults 0 order_db_new PaymentFailed_1)"

text \<open>
  Reading a broker message: the \<open>event_id\<close> beside the envelope's keys, and the
  \<open>event_id\<close> inside the object under the envelope's \<open>payload\<close> key.
\<close>

definition envelope_event_id :: "broker_msg \<Rightarrow> json option" where
  "envelope_event_id m = json_get (msg_value m) ''event_id''"

definition payload_event_id :: "broker_msg \<Rightarrow> json option" where
  "payload_event_id m =
     (case json_get (msg_value m) ''payload'' of
        Some p \<Rightarrow> json_get p ''event_id''
      | None \<Rightarrow> None)"

text \<open>
  An order service's outbox whose sequence stands at 7 when \<open>CreateOrder\<close> commits
  the event of order 5 (user 999, one unit of product 1), and the relay tick that
  follows, with a broker that acknowledges.
\<close>

definition outbox_order_created :: outbox_tbl where
  "outbox_order_created =
     (case SaveOutboxEvent no_faults 0 \<lparr>rows = [], seq = 7\<rparr>
             (CreateOrder_outboxEvent 5 999 [(1, 1)]) of
        Inr t \<Rightarrow> t
      | Inl err \<Rightarrow> \<lparr>rows = [], seq = 7\<rparr>)"

definition tick_order_created :: "error option \<times> outbox_tbl \<times> broker_msg list" where
  "tick_order_created =
     processBatch NewOutboxProcessor no_faults (\<lambda>i. no_faults) (\<lambda>topic message. None) 1 {}
       outbox_order_created"

section \<open>Payment service\<close>

record Payment =
  pay_ID :: int
  pay_OrderID :: int
  pay_UserID :: int
  pay_Status :: string
  pay_Amount :: int
  pay_TransactionID :: string
  pay_CreatedAt :: int
  pay_UpdatedAt :: int

definition Payment_zero :: Payment where
  "Payment_zero =
     \<lparr>pay_ID = 0, pay_OrderID = 0, pay_UserID = 0, pay_Status = [], pay_Amount = 0,
      pay_TransactionID = [], pay_CreatedAt = 0, pay_UpdatedAt = 0\<rparr>"

record payment_db =
  payments :: "Payment list"
  payments_seq :: int
  payment_outbox :: outbox_tbl

record InventoryReservedEvent =
  ir_OrderID :: int
  ir_UserID :: int
  ir_Amount :: int
  ir_ReservedAt :: int

text \<open>
  The migration's partial unique index
  \<^verbatim>\<open>CREATE UNIQUE INDEX idx_payments_order_id_unique ON payments(order_id)
  WHERE status = 'SUCCEEDED'\<close>:
  a new row is refused when it satisfies the index predicate and a row of the table
  that satisfies it has the same \<open>order_id\<close>.
\<close>

definition idx_payments_order_id_unique_predicate :: "Payment \<Rightarrow> bool" where
  "idx_payments_order_id_unique_predicate r = (pay_Status r = ''SUCCEEDED'')"

definition idx_payments_order_id_unique_refuses :: "Payment list \<Rightarrow> Payment \<Rightarrow> bool" where
  "idx_payments_order_id_unique_refuses tbl new =
     (idx_payments_order_id_unique_predicate new \<and>
      list_ex (\<lambda>r. idx_payments_order_id_unique_predicate r \<and>
                    pay_OrderID r = pay_OrderID new) tbl)"

text \<open>
  \<open>paymentRepo.Create\<close>: \<open>INSERT INTO payments (order_id, user_id, amount, status,
  transaction_id, created_at, updated_at) VALUES ($1, $2, $3, $4, $5, NOW(), NOW())
  RETURNING id, created_at, updated_at\<close>. The result is the table and the payment with
  the returned columns filled in.
\<close>

definition Create ::
  "faults \<Rightarrow> int \<Rightarrow> payment_db \<Rightarrow> Payment \<Rightarrow> error + payment_db \<times> Payment" where
  "Create io now db payment =
     (case io ''Create'' of
        Some err \<Rightarrow> Inl err
      | None \<Rightarrow>
          if idx_payments_order_id_unique_refuses (payments db) payment
          then Inl UniqueViolation
          else (let row = payment\<lparr>pay_ID := payments_seq db, pay_CreatedAt := now,
                                  pay_UpdatedAt := now\<rparr>
                in Inr (db\<lparr>payments := payments db @ [row],
                           payments_seq := payments_seq db + 1\<rparr>, row)))"

text \<open>
  \<open>paymentRepo.GetOrderByID\<close>, on the pool and outside any transaction:
  \<open>SELECT id, order_id, status FROM payments WHERE order_id = $1\<close>, first row; no row
  is \<open>(nil, nil)\<close>.
\<close>

definition GetOrderByID :: "faults \<Rightarrow> Payment list \<Rightarrow> int \<Rightarrow> error + Payment option" where
  "GetOrderByID io tbl orderID =
     (case io ''GetOrderByID'' of
        Some err \<Rightarrow>
          if errors_Is err ErrNoRows then Inr None
          else Inl (Errorf ''error getting order by id: %w'' [] (Some err))
      | None \<Rightarrow>
         (case filter (\<lambda>r. pay_OrderID r = orderID) tbl of
            [] \<Rightarrow> Inr None
          | r # _ \<Rightarrow>
              Inr (Some (Payment_zero\<lparr>pay_ID := pay_ID r, pay_OrderID := pay_OrderID r,
                                       pay_Status := pay_Status r\<rparr>))))"

text \<open>The two event payloads, as \<open>json.Marshal\<close> renders the structs of pkg/domain.\<close>

definition PaymentFailedEvent_json :: "int \<Rightarrow> int \<Rightarrow> int \<Rightarrow> int \<Rightarrow> json" where
  "PaymentFailedEvent_json orderID paymentID amount failedAt =
     JObj [(''order_id'', JNum orderID), (''payment_id'', JNum paymentID),
           (''amount'', JNum amount), (''failed_at'', JTime failedAt)]"

definition PaymentSucceededEvent_json :: "int \<Rightarrow> int \<Rightarrow> int \<Rightarrow> int \<Rightarrow> json" where
  "PaymentSucceededEvent_json orderID paymentID amount paidAt =
     JObj [(''order_id'', JNum orderID), (''payment_id'', JNum paymentID),
           (''amount'', JNum amount), (''paid_at'', JTime paidAt)]"

text \<open>
  \<open>paymentService.emitEvent\<close>: the envelope, on topic \<open>payment_events\<close>. (\<open>json.Marshal\<close>
  of the wrapper cannot fail for the two payloads, so that branch is left out.)
\<close>

definition payment_emitEvent ::
  "faults \<Rightarrow> int \<Rightarrow> outbox_tbl \<Rightarrow> string \<Rightarrow> json \<Rightarrow> error + outbox_tbl" where
  "payment_emitEvent io now tbl eventType payload =
     SaveOutboxEvent io now tbl
       (OutboxEvent_zero\<lparr>Topic := ''payment_events'',
          Payload := JObj [(''event'', JStr eventType), (''payload'', payload)]\<rparr>)"

text \<open>
  The transaction of \<open>ProcessPayment\<close>, from \<open>s.pool.Begin\<close> on. \<open>uuid\<close> is the string
  \<open>uuid.New().String()\<close> returns in this call and \<open>now\<close> the clock, read by
  \<open>time.Now()\<close> and by the database's \<open>NOW()\<close>; \<open>%\<close> is Go's
  remainder, which truncates towards zero. The payment id of the event is the zero
  value: the payload is built before the row is inserted.
\<close>

definition ProcessPayment_tx ::
  "faults \<Rightarrow> string \<Rightarrow> int \<Rightarrow> payment_db \<Rightarrow> InventoryReservedEvent \<Rightarrow>
   error option \<times> payment_db" where
  "ProcessPayment_tx io uuid now db event =
     (case io ''Begin'' of
        Some err \<Rightarrow> (Some (Errorf ''error beginning transaction: %w'' [] (Some err)), db)
      | None \<Rightarrow>
         (let (status, eventType, eventPayload) =
                (if ir_OrderID event smod 2 = 0
                 then (''FAIL'', ''PaymentFailed'',
                       PaymentFailedEvent_json (ir_OrderID event) 0 (ir_Amount event) now)
                 else (''PAID'', ''PaymentSucceeded'',
                       PaymentSucceededEvent_json (ir_OrderID event) 0 (ir_Amount event) now));
              payment = Payment_zero\<lparr>pay_OrderID := ir_OrderID event,
                          pay_UserID := ir_UserID event, pay_Amount := ir_Amount event,
                          pay_Status := status, pay_TransactionID := uuid\<rparr>
          in (case Create io now db payment of
                Inl err \<Rightarrow> (Some err, db)
              | Inr (db1, created) \<Rightarrow>
                 (case payment_emitEvent io now (payment_outbox db1) eventType eventPayload of
                    Inl err \<Rightarrow> (Some err, db\<lparr>payments_seq := payments_seq db1\<rparr>)
                  | Inr outbox' \<Rightarrow>
                     (case io ''Commit'' of
                        Some err \<Rightarrow>
                          (Some (Errorf ''failed to commit transaction: %w'' [] (Some err)),
                           db\<lparr>payments_seq := payments_seq db1,
                              payment_outbox := (payment_outbox db)\<lparr>seq := seq outbox'\<rparr>\<rparr>)
                      | None \<Rightarrow> (None, db1\<lparr>payment_outbox := outbox'\<rparr>))))))"

text \<open>\<open>paymentService.ProcessPayment\<close>: the existence check, then the transaction.\<close>

definition ProcessPayment ::
  "faults \<Rightarrow> string \<Rightarrow> int \<Rightarrow> payment_db \<Rightarrow> InventoryReservedEvent \<Rightarrow>
   error option \<times> payment_db" where
  "ProcessPayment io uuid now db event =
     (case GetOrderByID io (payments db) (ir_OrderID event) of
        Inl err \<Rightarrow> (Some err, db)
      | Inr (Some existingPayment) \<Rightarrow> (None, db)
      | Inr None \<Rightarrow> ProcessPayment_tx io uuid now db event)"

text \<open>
  Two consumers handling the same \<open>InventoryReserved\<close> delivery at once: both run the
  existence check on the database as it stands, then each runs its transaction. Each
  component of the result is one handler's returned error.
\<close>

definition ProcessPayment_concurrent ::
  "string \<Rightarrow> string \<Rightarrow> int \<Rightarrow> payment_db \<Rightarrow> InventoryReservedEvent \<Rightarrow>
   (error option \<times> error option) \<times> payment_db" where
  "ProcessPayment_concurrent uuid1 uuid2 now db event =
     (case (GetOrderByID no_faults (payments db) (ir_OrderID event),
            GetOrderByID no_faults (payments db) (ir_OrderID event)) of
        (Inr None, Inr None) \<Rightarrow>
          (case ProcessPayment_tx no_faults uuid1 now db event of
             (err1, db1) \<Rightarrow>
               (case ProcessPayment_tx no_faults uuid2 now db1 event of
                  (err2, db2) \<Rightarrow> ((err1, err2), db2)))
      | _ \<Rightarrow> ((None, None), db))"

text \<open>The rows of an order, and the outbox rows of an event type for an order.\<close>

definition payments_of :: "payment_db \<Rightarrow> int \<Rightarrow> Payment list" where
  "payments_of db orderID = filter (\<lambda>r. pay_OrderID r = orderID) (payments db)"

definition payment_event_row :: "string \<Rightarrow> int \<Rightarrow> int \<Rightarrow> OutboxEvent \<Rightarrow> bool" where
  "payment_event_row eventType orderID amount e =
     (Topic e = ''payment_events'' \<and> PublishedAt e = None \<and>
      json_get (Payload e) ''event'' = Some (JStr eventType) \<and>
      (case json_get (Payload e) ''payload'' of
         Some p \<Rightarrow> json_get p ''order_id'' = Some (JNum orderID) \<and>
                   json_get p ''amount'' = Some (JNum amount)
       | None \<Rightarrow> False))"

definition payment_db_empty :: payment_db where
  "payment_db_empty = \<lparr>payments = [], payments_seq = 1, payment_outbox = \<lparr>rows = [], seq = 1\<rparr>\<rparr>"

definition InventoryReserved_1 :: InventoryReservedEvent where
  "InventoryReserved_1 =
     \<lparr>ir_OrderID = 1, ir_UserID = 999, ir_Amount = 5350, ir_ReservedAt = 0\<rparr>"

definition InventoryReserved_2 :: InventoryReservedEvent where
  "InventoryReserved_2 =
     \<lparr>ir_OrderID = 2, ir_UserID = 999, ir_Amount = 5350, ir_ReservedAt = 0\<rparr>"

text \<open>
  What one successful \<open>ProcessPayment\<close> writes for an event: the payment row \<open>p\<close> and
  the outbox row \<open>e\<close>, by the parity of the order id.
\<close>

definition written :: "string \<Rightarrow> int \<Rightarrow> InventoryReservedEvent \<Rightarrow> Payment \<Rightarrow> OutboxEvent \<Rightarrow> bool" where
  "written uuid now event p e =
     (pay_OrderID p = ir_OrderID event \<and> pay_UserID p = ir_UserID event \<and>
      pay_Amount p = ir_Amount event \<and> pay_TransactionID p = uuid \<and>
      (if even (ir_OrderID event)
       then pay_Status p = ''FAIL'' \<and>
            payment_event_row ''PaymentFailed'' (ir_OrderID event) (ir_Amount event) e
       else pay_Status p = ''PAID'' \<and>
            payment_event_row ''PaymentSucceeded'' (ir_OrderID event) (ir_Amount event) e))"

section \<open>Catalog (product service)\<close>

record Product =
  prod_ID :: int
  prod_Name :: string
  prod_Description :: string
  prod_Price :: int
  prod_StockQuantity :: int
  prod_ImageUrl :: string
  prod_Category :: string
  prod_CreatedAt :: int
  prod_UpdatedAt :: int
  prod_DeletedAt :: "int option"

text \<open>
  The rows the conditional update of \<open>DecreaseStock\<close> touches:
  \<open>WHERE id = $1 AND stock_quantity >= $2 AND deleted_at IS NULL\<close>.
\<close>

definition decrement_applies :: "int \<Rightarrow> int \<Rightarrow> Product \<Rightarrow> bool" where
  "decrement_applies id' quantity r =
     (prod_ID r = id' \<and> quantity \<le> prod_StockQuantity r \<and> prod_DeletedAt r = None)"

text \<open>
  \<open>productRepo.DecreaseStock\<close>, inside the caller's transaction: first
  \<open>SELECT price FROM products WHERE id = $1\<close> (no row: \<open>pgx.ErrNoRows\<close>), then
  \<^verbatim>\<open>UPDATE products SET stock_quantity = stock_quantity - $2, updated_at = NOW()
  WHERE id = $1 AND stock_quantity >= $2 AND deleted_at IS NULL\<close>
  and \<open>ErrInsufficientStock\<close> when no row was affected. The column \<open>stock_quantity\<close>
  is a 32-bit \<open>INT\<close>: the update fails when a new value leaves its range. (The
  migration also puts \<open>CHECK (stock_quantity >= 0)\<close> on the column; the model leaves it
  out, and no update of this function would trip it.) The result is the price and the
  transaction's table.
\<close>

definition DecreaseStock ::
  "faults \<Rightarrow> int \<Rightarrow> Product list \<Rightarrow> int \<Rightarrow> int \<Rightarrow> error + int \<times> Product list" where
  "DecreaseStock io now tbl id' quantity =
     (case io ''DecreaseStock.QueryRow'' of
        Some err \<Rightarrow> Inl err
      | None \<Rightarrow>
         (case filter (\<lambda>r. prod_ID r = id') tbl of
            [] \<Rightarrow> Inl ErrNoRows
          | p # _ \<Rightarrow>
             (case io ''DecreaseStock.Exec'' of
                Some err \<Rightarrow>
                  Inl (Errorf ''error decreasing stock for product %d: %w'' [id'] (Some err))
              | None \<Rightarrow>
                  if list_ex (\<lambda>r. decrement_applies id' quantity r \<and>
                                   \<not> int32_ok (prod_StockQuantity r - quantity)) tbl
                  then Inl (Errorf ''error decreasing stock for product %d: %w'' [id']
                              (Some (DbError ''integer out of range'')))
                  else if length (filter (decrement_applies id' quantity) tbl) = 0
                  then Inl ErrInsufficientStock
                  else Inr (prod_Price p,
                            map (\<lambda>r. if decrement_applies id' quantity r
                                      then r\<lparr>prod_StockQuantity := prod_StockQuantity r - quantity,
                                             prod_UpdatedAt := now\<rparr>
                                      else r) tbl))))"

text \<open>
  A sequence of stock decrements, each request a product id and a quantity, each in a
  transaction that is committed when the repository call succeeds and abandoned when
  it fails.
\<close>

fun DecreaseStock_seq :: "faults \<Rightarrow> int \<Rightarrow> Product list \<Rightarrow> (int \<times> int) list \<Rightarrow> Product list" where
  "DecreaseStock_seq io now tbl [] = tbl"
| "DecreaseStock_seq io now tbl ((id', quantity) # requests) =
     (case DecreaseStock io now tbl id' quantity of
        Inl err \<Rightarrow> DecreaseStock_seq io now tbl requests
      | Inr (price, tbl') \<Rightarrow> DecreaseStock_seq io now tbl' requests)"

text \<open>All stock levels of a table are at least zero.\<close>

definition stock_nonneg :: "Product list \<Rightarrow> bool" where
  "stock_nonneg tbl = list_all (\<lambda>r. 0 \<le> prod_StockQuantity r) tbl"

text \<open>The seed of the scenario tests: product 1, price 5350, stock 3.\<close>

definition product_1 :: Product where
  "product_1 =
     \<lparr>prod_ID = 1, prod_Name = ''Kuronami No Yaiba'', prod_Description = [],
      prod_Price = 5350, prod_StockQuantity = 3, prod_ImageUrl = [], prod_Category = [],
      prod_CreatedAt = 0, prod_UpdatedAt = 0, prod_DeletedAt = None\<rparr>"

text \<open>
  The catalog's database as the service's calls see it: the committed \<open>products\<close> table
  and the transactions that were begun and neither committed nor rolled back, each with
  its own uncommitted view of the table. Closing a connection discards its
  transaction.
\<close>

record product_db =
  products :: "Product list"
  open_txs :: "Product list list"

definition discard_open_txs :: "product_db \<Rightarrow> product_db" where
  "discard_open_txs db = db\<lparr>open_txs := []\<rparr>"

text \<open>
  \<open>productService.DecreaseStock\<close>, the gRPC stock mutation: \<open>s.pool.Begin\<close>, the
  repository call in that transaction, then a return. The function has no
  \<open>tx.Commit\<close>, no \<open>tx.Rollback\<close> and no deferred call, on any path after \<open>Begin\<close>.
\<close>

definition DecreaseStock_service ::
  "faults \<Rightarrow> int \<Rightarrow> product_db \<Rightarrow> int \<Rightarrow> int \<Rightarrow> (string \<times> error option) \<times> product_db" where
  "DecreaseStock_service io now db id' quantity =
     (case io ''Begin'' of
        Some err \<Rightarrow> (([], Some err), db)
      | None \<Rightarrow>
         (case DecreaseStock io now (products db) id' quantity of
            Inl err \<Rightarrow> (([], Some err), db\<lparr>open_txs := open_txs db @ [products db]\<rparr>)
          | Inr (price, tx) \<Rightarrow>
              ((''success'', None), db\<lparr>open_txs := open_txs db @ [tx]\<rparr>)))"

definition product_db_1 :: product_db where
  "product_db_1 = \<lparr>products = [product_1], open_txs = []\<rparr>"

text \<open>
  \<open>productRepo.GetByID\<close> (\<open>WHERE id = $1 and deleted_at IS NULL\<close>, first row) under
  \<open>productService.FindByID\<close>, which passes \<open>ErrProductNotFound\<close> on and wraps any other
  error. The column \<open>deleted_at\<close> is not scanned.
\<close>

definition GetByID :: "faults \<Rightarrow> Product list \<Rightarrow> int \<Rightarrow> error + Product" where
  "GetByID io tbl id' =
     (case io ''GetByID'' of
        Some err \<Rightarrow>
          if errors_Is err ErrNoRows then Inl ErrProductNotFound
          else Inl (Errorf ''error getting product: %w'' [] (Some err))
      | None \<Rightarrow>
         (case filter (\<lambda>r. prod_ID r = id' \<and> prod_DeletedAt r = None) tbl of
            [] \<Rightarrow> Inl ErrProductNotFound
          | r # _ \<Rightarrow> Inr (r\<lparr>prod_DeletedAt := None\<rparr>)))"

definition FindByID :: "faults \<Rightarrow> Product list \<Rightarrow> int \<Rightarrow> error + Product" where
  "FindByID io tbl id' =
     (case GetByID io tbl id' of
        Inl err \<Rightarrow>
          if errors_Is err ErrProductNotFound then Inl err
          else Inl (Errorf ''error getting product by id: %w'' [] (Some err))
      | Inr res \<Rightarrow> Inr res)"

text \<open>
  \<open>productRepo.DeleteByID\<close> (\<open>UPDATE products SET deleted_at = NOW() WHERE id = $1 AND
  deleted_at IS NULL\<close>, on the pool) under \<open>productService.Delete\<close>, which returns the
  repository's error as it is.
\<close>

definition DeleteByID :: "faults \<Rightarrow> int \<Rightarrow> Product list \<Rightarrow> int \<Rightarrow> error + Product list" where
  "DeleteByID io now tbl id' =
     (case io ''DeleteByID'' of
        Some err \<Rightarrow> Inl (Errorf ''error deleting product by id: %v'' [] None)
      | None \<Rightarrow>
          if length (filter (\<lambda>r. prod_ID r = id' \<and> prod_DeletedAt r = None) tbl) = 0
          then Inl ErrProductNotFound
          else Inr (map (\<lambda>r. if prod_ID r = id' \<and> prod_DeletedAt r = None
                              then r\<lparr>prod_DeletedAt := Some now\<rparr> else r) tbl))"

definition Delete :: "faults \<Rightarrow> int \<Rightarrow> product_db \<Rightarrow> int \<Rightarrow> error option \<times> product_db" where
  "Delete io now db id' =
     (case DeleteByID io now (products db) id' of
        Inl err \<Rightarrow> (Some err, db)
      | Inr tbl \<Rightarrow> (None, db\<lparr>products := tbl\<rparr>))"

section \<open>Catalog read cache (cachedProductService)\<close>

text \<open>
  Redis as the decorator uses it: a key holds a value (bytes) and its time to live in
  seconds. \<open>rio\<close> gives the faults of the Redis client per command; the decorator
  ignores the results of \<open>Set\<close> and \<open>Del\<close>.
\<close>

type_synonym redis = "string \<Rightarrow> (string \<times> int) option"

definition redis_Get :: "faults \<Rightarrow> redis \<Rightarrow> string \<Rightarrow> error + string" where
  "redis_Get rio r key =
     (case rio ''Get'' of
        Some err \<Rightarrow> Inl err
      | None \<Rightarrow> (case r key of None \<Rightarrow> Inl (DbError ''redis: nil'') | Some (val, ttl) \<Rightarrow> Inr val))"

definition redis_Set :: "faults \<Rightarrow> redis \<Rightarrow> string \<Rightarrow> string \<Rightarrow> int \<Rightarrow> redis" where
  "redis_Set rio r key val ttl =
     (case rio ''Set'' of Some err \<Rightarrow> r | None \<Rightarrow> r(key \<mapsto> (val, ttl)))"

definition redis_Del :: "faults \<Rightarrow> redis \<Rightarrow> string \<Rightarrow> redis" where
  "redis_Del rio r key = (case rio ''Del'' of Some err \<Rightarrow> r | None \<Rightarrow> r(key := None))"

text \<open>The key \<open>fmt.Sprintf("product:%d", id)\<close>.\<close>

definition product_key :: "int \<Rightarrow> string" where
  "product_key id' = ''product:'' @ show_int id'"

text \<open>
  The decorator's configuration: \<open>NewCachedProductService\<close> sets \<open>cacheTTL\<close> to
  \<open>time.Minute * 10\<close>, here in seconds.
\<close>

definition cacheTTL :: int where
  "cacheTTL = 10 * 60"

text \<open>
  \<open>encoding/json\<close> on \<open>domain.Product\<close> is taken as given: \<open>marshal p\<close> is the result of
  \<open>json.Marshal(product)\<close>, and \<open>unmarshal bytes\<close> the product \<open>json.Unmarshal\<close> leaves
  in its target together with its error.
\<close>

record codec =
  marshal :: "Product \<Rightarrow> error + string"
  unmarshal :: "string \<Rightarrow> Product \<times> error option"

text \<open>
  \<open>cachedProductService.FindByID\<close>. After a successful \<open>Get\<close> the function returns the
  decoded product only \<open>if err := json.Unmarshal(...); err != nil\<close>, and it calls
  \<open>Set\<close> only \<open>if data, err := json.Marshal(product); err != nil\<close>, with the
  \<open>data\<close> of the failed call (nil). The third component of the result tells whether
  the wrapped service, and so the repository, was called.
\<close>

definition cached_FindByID ::
  "codec \<Rightarrow> faults \<Rightarrow> faults \<Rightarrow> redis \<Rightarrow> Product list \<Rightarrow> int \<Rightarrow>
   (error + Product) \<times> redis \<times> bool" where
  "cached_FindByID c rio io r tbl id' =
     (let key = product_key id';
          from_next =
            (case FindByID io tbl id' of
               Inl err \<Rightarrow> (Inl err, r, True)
             | Inr product \<Rightarrow>
                (case marshal c product of
                   Inl err \<Rightarrow> (Inr product, redis_Set rio r key [] cacheTTL, True)
                 | Inr data \<Rightarrow> (Inr product, r, True)))
      in (case redis_Get rio r key of
            Inr val \<Rightarrow>
              (case unmarshal c val of
                 (product, Some err) \<Rightarrow> (Inr product, r, False)
               | (product, None) \<Rightarrow> from_next)
          | Inl err \<Rightarrow> from_next))"

text \<open>
  \<open>cachedProductService.Delete\<close> and \<open>cachedProductService.DecreaseStock\<close>: the wrapped
  call, and \<open>Del\<close> of the key when it returned no error.
\<close>

definition cached_Delete ::
  "faults \<Rightarrow> faults \<Rightarrow> int \<Rightarrow> redis \<Rightarrow> product_db \<Rightarrow> int \<Rightarrow> error option \<times> redis \<times> product_db" where
  "cached_Delete rio io now r db id' =
     (case Delete io now db id' of
        (Some err, db') \<Rightarrow> (Some err, r, db')
      | (None, db') \<Rightarrow> (None, redis_Del rio r (product_key id'), db'))"

definition cached_DecreaseStock ::
  "faults \<Rightarrow> faults \<Rightarrow> int \<Rightarrow> redis \<Rightarrow> product_db \<Rightarrow> int \<Rightarrow> int \<Rightarrow>
   (string \<times> error option) \<times> redis \<times> product_db" where
  "cached_DecreaseStock rio io now r db id' quantity =
     (case DecreaseStock_service io now db id' quantity of
        ((res, Some err), db') \<Rightarrow> (([], Some err), r, db')
      | ((res, None), db') \<Rightarrow> ((res, None), redis_Del rio r (product_key id'), db'))"

text \<open>
  A codec for the examples: every product is rendered as the same bytes, and the bytes
  decode, without error, to the seed product with a stock of 7.
\<close>

definition codec_example :: codec where
  "codec_example =
     \<lparr>marshal = (\<lambda>p. Inr ''{}''),
      unmarshal = (\<lambda>bytes. (product_1\<lparr>prod_StockQuantity := 7\<rparr>, None))\<rparr>"

section \<open>Order service: cancelling an order\<close>

text \<open>The unconditional update gives every row of the id the new status.\<close>

lemma status_after_update:
  "map order_status
     (filter (\<lambda>r. order_id r = oid)
        (map (\<lambda>r. if order_id r = oid then r\<lparr>order_status := s\<rparr> else r) tbl)) =
   map (\<lambda>r. s) (filter (\<lambda>r. order_id r = oid) tbl)"
  by (induction tbl) auto

text \<open>
  With no driver fault, \<open>CancelOrder\<close> on an order that has a row commits, whatever the
  row's status: the status becomes \<open>cancelled\<close> and the outbox gains the
  \<open>OrderCancelled\<close> envelope.
\<close>

lemma CancelOrder_existing:
  assumes "status_of db (pf_OrderID event) = [s]"
  shows "CancelOrder no_faults now db event =
           (None,
            db\<lparr>orders := map (\<lambda>r. if order_id r = pf_OrderID event
                                   then r\<lparr>order_status := ''cancelled''\<rparr> else r) (orders db),
               order_outbox :=
                 (order_outbox db)\<lparr>rows := rows (order_outbox db) @
                   [OutboxEvent_zero\<lparr>Id := seq (order_outbox db),
                      Payload := JObj [(''event'', JStr ''OrderCancelled''),
                        (''payload'',
                         OrderCancelledEvent_json (pf_OrderID event)
                           (map (\<lambda>r. r\<lparr>item_OrderID := 0\<rparr>)
                              (filter (\<lambda>r. item_OrderID r = pf_OrderID event)
                                 (order_items db))))],
                      Headers := JObj [], CreatedAt := now, Topic := ''payment_events''\<rparr>],
                   seq := seq (order_outbox db) + 1\<rparr>\<rparr>)"
proof -
  from assms have "filter (\<lambda>r. order_id r = pf_OrderID event) (orders db) \<noteq> []"
    by (auto simp: status_of_def)
  then show ?thesis
    by (simp add: CancelOrder_def ChangeOrderStatus_def GetAllItemsOfOrder_def
          order_emitEvent_def SaveOutboxEvent_def no_faults_def OutboxEvent_zero_def)
qed

text \<open>
  C1. The claim: a \<open>PaymentFailed\<close> event for a paid order is rejected with a
  failed-precondition error and the order stays \<open>paid\<close>. The code: for every order
  whose status is \<open>paid\<close>, \<open>CancelOrder\<close> returns nil and the committed status is
  \<open>cancelled\<close>, the transition paid to cancelled.
\<close>

theorem CancelOrder_cancels_paid_order:
  assumes "status_of db (pf_OrderID event) = [''paid'']"
  shows "fst (CancelOrder no_faults now db event) = None \<and>
         status_of (snd (CancelOrder no_faults now db event)) (pf_OrderID event) =
           [''cancelled'']"
proof -
  from assms have len: "length (filter (\<lambda>r. order_id r = pf_OrderID event) (orders db)) = 1"
    by (metis length_map status_of_def length_Cons list.size(3) One_nat_def)
  have "status_of (snd (CancelOrder no_faults now db event)) (pf_OrderID event) =
        map (\<lambda>r. ''cancelled'') (filter (\<lambda>r. order_id r = pf_OrderID event) (orders db))"
    by (simp add: CancelOrder_existing[OF assms] status_of_def status_after_update)
  also have "\<dots> = [''cancelled'']"
    using len by (cases "filter (\<lambda>r. order_id r = pf_OrderID event) (orders db)") auto
  finally show ?thesis by (simp add: CancelOrder_existing[OF assms])
qed

lemmas order_defs =
  CancelOrder_def ChangeOrderStatus_service_def ChangeOrderStatus_def
  GetAllItemsOfOrder_def order_emitEvent_def SaveOutboxEvent_def no_faults_def
  OutboxEvent_zero_def OrderCancelledEvent_json_def OrderItem_json_def
  status_of_def OrderCancelled_rows_def is_OrderCancelled_for_def
  order_db_new_def PaymentFailed_1_def order_db_paid_def order_db_cancelled_def
  CreateOrder_outboxEvent_def

theorem CancelOrder_cancels_paid_order_witness:
  "status_of order_db_paid 1 = [''paid''] \<and>
   fst (CancelOrder no_faults 0 order_db_paid PaymentFailed_1) = None \<and>
   status_of (snd (CancelOrder no_faults 0 order_db_paid PaymentFailed_1)) 1 = [''cancelled'']"
proof -
  have paid: "status_of order_db_paid (pf_OrderID PaymentFailed_1) = [''paid'']"
    by (simp add: order_defs)
  have one: "pf_OrderID PaymentFailed_1 = 1" by (simp add: PaymentFailed_1_def)
  from CancelOrder_cancels_paid_order[OF paid, of 0] paid show ?thesis
    unfolding one by simp
qed

text \<open>
  C2. The claim: redelivering the same \<open>PaymentFailed\<close> to an order it already
  cancelled returns without error and changes no state. The code: the second call
  returns nil and the status stays \<open>cancelled\<close>, and one more \<open>OrderCancelled\<close> row is
  committed to the outbox.
\<close>

theorem CancelOrder_redelivery_adds_outbox_row:
  assumes "status_of db (pf_OrderID event) = [''cancelled'']"
  shows "fst (CancelOrder no_faults now db event) = None \<and>
         status_of (snd (CancelOrder no_faults now db event)) (pf_OrderID event) =
           [''cancelled''] \<and>
         length (OrderCancelled_rows (snd (CancelOrder no_faults now db event))
                   (pf_OrderID event)) =
           length (OrderCancelled_rows db (pf_OrderID event)) + 1"
proof -
  from assms have len: "length (filter (\<lambda>r. order_id r = pf_OrderID event) (orders db)) = 1"
    by (metis length_map status_of_def length_Cons list.size(3) One_nat_def)
  have "status_of (snd (CancelOrder no_faults now db event)) (pf_OrderID event) =
        map (\<lambda>r. ''cancelled'') (filter (\<lambda>r. order_id r = pf_OrderID event) (orders db))"
    by (simp add: CancelOrder_existing[OF assms] status_of_def status_after_update)
  also have "\<dots> = [''cancelled'']"
    using len by (cases "filter (\<lambda>r. order_id r = pf_OrderID event) (orders db)") auto
  finally have st: "status_of (snd (CancelOrder no_faults now db event)) (pf_OrderID event) =
                    [''cancelled'']" .
  have "length (OrderCancelled_rows (snd (CancelOrder no_faults now db event))
                  (pf_OrderID event)) =
        length (OrderCancelled_rows db (pf_OrderID event)) + 1"
    by (simp add: CancelOrder_existing[OF assms] OrderCancelled_rows_def
          is_OrderCancelled_for_def OrderCancelledEvent_json_def OutboxEvent_zero_def)
  with st show ?thesis by (simp add: CancelOrder_existing[OF assms])
qed

theorem CancelOrder_redelivery_adds_outbox_row_witness:
  "status_of order_db_cancelled 1 = [''cancelled''] \<and>
   length (OrderCancelled_rows order_db_cancelled 1) = 1 \<and>
   fst (CancelOrder no_faults 1 order_db_cancelled PaymentFailed_1) = None \<and>
   status_of (snd (CancelOrder no_faults 1 order_db_cancelled PaymentFailed_1)) 1 =
     [''cancelled''] \<and>
   length (OrderCancelled_rows
             (snd (CancelOrder no_faults 1 order_db_cancelled PaymentFailed_1)) 1) = 2"
proof -
  have c: "status_of order_db_cancelled (pf_OrderID PaymentFailed_1) = [''cancelled'']"
    by (simp add: order_defs)
  have one: "pf_OrderID PaymentFailed_1 = 1" by (simp add: PaymentFailed_1_def)
  have before: "length (OrderCancelled_rows order_db_cancelled 1) = 1"
    by (simp add: order_defs)
  from CancelOrder_redelivery_adds_outbox_row[OF c, of 1] c before show ?thesis
    unfolding one by simp
qed

section \<open>Outbox relay: selection of unpublished events\<close>

lemma grows_refl: "grows t t"
  by (simp add: grows_def list_all2_same)

lemma grows_trans:
  assumes "grows a b" "grows b c"
  shows "grows a c"
proof -
  let ?R = "\<lambda>r r'. Id r' = Id r \<and> Attempts r \<le> Attempts r'"
  from assms have ab: "list_all2 ?R (rows a) (rows b)" and bc: "list_all2 ?R (rows b) (rows c)"
    by (simp_all add: grows_def)
  have "list_all2 ?R (rows a) (rows c)"
    by (rule list_all2_trans[OF _ ab bc]) auto
  with assms show ?thesis by (simp add: grows_def)
qed

lemma grows_map:
  assumes "\<And>r. Id (f r) = Id r \<and> Attempts r \<le> Attempts (f r)"
  shows "grows t (t\<lparr>rows := map f (rows t)\<rparr>)"
  using assms by (simp add: grows_def list_all2_conv_all_nth)

lemma MarkEventFailed_grows:
  "MarkEventFailed io t i msg = Inr t' \<Longrightarrow> grows t t'"
  unfolding MarkEventFailed_def
  by (auto split: option.splits if_splits intro!: grows_map)

lemma MarkEventPublished_grows:
  "MarkEventPublished io now t i = Inr t' \<Longrightarrow> grows t t'"
  unfolding MarkEventPublished_def
  by (auto split: option.splits if_splits intro!: grows_map)

lemma MarkEventUnpublished_grows:
  "MarkEventUnpublished io t i = Inr t' \<Longrightarrow> grows t t'"
  unfolding MarkEventUnpublished_def
  by (auto split: option.splits if_splits intro!: grows_map)

lemma process_events_grows:
  "process_events io_ev produce now evs tx sent = (ret, tx', sent') \<Longrightarrow> grows tx tx'"
proof (induction evs arbitrary: tx sent)
  case Nil
  then show ?case by (simp add: grows_refl)
next
  case (Cons e evs)
  show ?case
  proof (cases "json_Unmarshal_map (Payload e)")
    case (Inl err)
    show ?thesis
    proof (cases "MarkEventFailed (io_ev (Id e)) tx (Id e) (Error_text err)")
      case (Inl dbErr)
      with Cons \<open>json_Unmarshal_map (Payload e) = Inl err\<close> show ?thesis by simp
    next
      case (Inr tx1)
      with Cons \<open>json_Unmarshal_map (Payload e) = Inl err\<close>
      have "grows tx1 tx'" by simp
      with MarkEventFailed_grows[OF Inr] show ?thesis by (rule grows_trans)
    qed
  next
    case (Inr m)
    show ?thesis
    proof (cases m)
      case None
      with Cons Inr show ?thesis by (simp add: grows_refl)
    next
      case (Some payloadMap)
      let ?msg = "JObj (map_set payloadMap ''event_id'' (JNum (Id e)))"
      show ?thesis
      proof (cases "produce (Topic e) ?msg")
        case perr: (Some err)
        show ?thesis
        proof (cases "MarkEventFailed (io_ev (Id e)) tx (Id e) (Error_text err)")
          case (Inl dbErr)
          with Cons Inr Some perr show ?thesis by simp
        next
          case mf: (Inr tx1)
          with Cons Inr Some perr have "grows tx1 tx'" by simp
          with MarkEventFailed_grows[OF mf] show ?thesis by (rule grows_trans)
        qed
      next
        case pok: None
        show ?thesis
        proof (cases "MarkEventPublished (io_ev (Id e)) now tx (Id e)")
          case (Inl dbErr)
          with Cons Inr Some pok show ?thesis by (simp add: grows_refl)
        next
          case mp: (Inr tx1)
          with Cons Inr Some pok have "grows tx1 tx'" by simp
          with MarkEventPublished_grows[OF mp] show ?thesis by (rule grows_trans)
        qed
      qed
    qed
  qed
qed

lemma processBatch_grows:
  "processBatch p io io_ev produce now locked t = (err, t', sent) \<Longrightarrow> grows t t'"
  unfolding processBatch_def
  by (auto split: option.splits sum.splits if_splits prod.splits
           simp: grows_refl dest: process_events_grows)

lemma grows_attempts:
  assumes "grows t t'"
  shows "list_all2 (\<le>) (attempts_of t i) (attempts_of t' i)"
proof -
  have step: "list_all2 (\<lambda>r r'. Id r' = Id r \<and> Attempts r \<le> Attempts r') xs ys \<Longrightarrow>
        list_all2 (\<le>) (map Attempts (filter (\<lambda>r. Id r = i) xs))
                       (map Attempts (filter (\<lambda>r. Id r = i) ys))" for xs ys
    by (induction xs ys rule: list_all2_induct) auto
  from assms have "list_all2 (\<lambda>r r'. Id r' = Id r \<and> Attempts r \<le> Attempts r') (rows t) (rows t')"
    by (simp add: grows_def)
  from step[OF this] show ?thesis by (simp add: attempts_of_def)
qed

lemma grows_dead:
  assumes "grows t t'" "dead_lettered t i"
  shows "dead_lettered t' i"
proof -
  have l: "list_all2 (\<le>) (attempts_of t i) (attempts_of t' i)"
    using assms(1) by (rule grows_attempts)
  then have len: "length (attempts_of t' i) = length (attempts_of t i)"
    by (simp add: list_all2_lengthD)
  have "10 \<le> a'" if "a' \<in> set (attempts_of t' i)" for a'
  proof -
    from that obtain n where n: "n < length (attempts_of t' i)" "attempts_of t' i ! n = a'"
      by (auto simp: in_set_conv_nth)
    with l len have "attempts_of t i ! n \<le> a'" by (auto simp: list_all2_conv_all_nth)
    moreover have "10 \<le> attempts_of t i ! n"
      using assms(2) n len by (simp add: dead_lettered_def list_all_length)
    ultimately show ?thesis by simp
  qed
  with assms(2) len show ?thesis
    by (auto simp: dead_lettered_def list_all_iff)
qed

lemma grows_ids: "grows t t' \<Longrightarrow> ids_from_seq t \<Longrightarrow> ids_from_seq t'"
  unfolding grows_def ids_from_seq_def list_all_length
  by (auto simp: list_all2_conv_all_nth)

lemma Save_ids:
  "SaveOutboxEvent io now t e = Inr t' \<Longrightarrow> ids_from_seq t \<Longrightarrow> ids_from_seq t'"
  unfolding SaveOutboxEvent_def ids_from_seq_def list_all_iff
  by (fastforce split: option.splits)

lemma Save_dead:
  assumes "SaveOutboxEvent io now t e = Inr t'" "ids_from_seq t" "dead_lettered t i"
  shows "dead_lettered t' i"
proof -
  from assms(3) obtain r where "r \<in> set (rows t)" "Id r = i"
    by (auto simp: dead_lettered_def attempts_of_def filter_empty_conv)
  with assms(2) have "i < seq t" by (auto simp: ids_from_seq_def list_all_iff)
  with assms(1,3) show ?thesis
    by (auto simp: SaveOutboxEvent_def dead_lettered_def attempts_of_def split: option.splits)
qed

lemma reach_inv:
  assumes "outbox_reach t t'" "ids_from_seq t" "dead_lettered t i"
  shows "ids_from_seq t' \<and> dead_lettered t' i"
  using assms
proof (induction rule: outbox_reach.induct)
  case (reach_refl t)
  then show ?case by simp
next
  case (reach_tick t t' io io_ev produce now locked err t'' sent)
  then have "grows t' t''" by (auto dest: processBatch_grows)
  with reach_tick show ?case by (auto intro: grows_ids grows_dead)
next
  case (reach_save t t' io now event t'')
  then show ?case by (auto intro: Save_ids Save_dead)
next
  case (reach_unpublish t t' io eventID t'')
  then have "grows t' t''" by (auto dest: MarkEventUnpublished_grows)
  with reach_unpublish show ?case by (auto intro: grows_ids grows_dead)
qed

lemma dead_not_selected:
  assumes "dead_lettered t i"
  shows "i \<notin> Id ` set (select_unpublished locked t n)"
proof
  assume "i \<in> Id ` set (select_unpublished locked t n)"
  then obtain r where r: "r \<in> set (rows t)" "Id r = i" "Attempts r < 10"
    by (auto simp: select_unpublished_def selectable_def dest!: in_set_takeD)
  then have "Attempts r \<in> set (attempts_of t i)" by (auto simp: attempts_of_def)
  with assms have "10 \<le> Attempts r" by (auto simp: dead_lettered_def list_all_iff)
  with r show False by simp
qed

lemma select_props:
  "\<exists>rest. mset (select_unpublished locked t n @ rest) = mset (filter (selectable locked) (rows t)) \<and>
     sorted (map CreatedAt (select_unpublished locked t n @ rest)) \<and>
     length (select_unpublished locked t n) = min n (length (filter (selectable locked) (rows t)))"
proof -
  let ?s = "sort_key CreatedAt (filter (selectable locked) (rows t))"
  have "select_unpublished locked t n @ drop n ?s = ?s"
    by (simp add: select_unpublished_def)
  then show ?thesis
    by (intro exI[of _ "drop n ?s"]) (simp add: select_unpublished_def min.commute)
qed

lemma selectable_where:
  "filter (selectable locked) xs =
   filter (\<lambda>r. PublishedAt r = None \<and> Attempts r < 10 \<and> Id r \<notin> locked) xs"
  by (induction xs) (simp_all add: selectable_def)

lemma ids_from_seq_iff: "ids_from_seq t = (\<forall>r\<in>set (rows t). Id r < seq t)"
  by (simp add: ids_from_seq_def list_all_iff)

lemma dead_lettered_iff:
  "dead_lettered t i =
   ((\<exists>r\<in>set (rows t). Id r = i) \<and> (\<forall>r\<in>set (rows t). Id r = i \<longrightarrow> 10 \<le> Attempts r))"
  by (auto simp: dead_lettered_def attempts_of_def filter_empty_conv list_all_iff)

lemma scan_event_columns:
  "map Id (map scan_event sel) = map Id sel"
  "map AggregateType (map scan_event sel) = map AggregateType sel"
  "map AggregateID (map scan_event sel) = map AggregateID sel"
  "map EventType (map scan_event sel) = map EventType sel"
  "map Payload (map scan_event sel) = map Payload sel"
  "map Headers (map scan_event sel) = map Headers sel"
  "map CreatedAt (map scan_event sel) = map CreatedAt sel"
  "map Topic (map scan_event sel) = map Topic sel"
  by (simp_all add: scan_event_def)

text \<open>
  C3. When the query runs (no driver fault, a batch size that is not negative),
  \<open>GetUnpublishedEvents\<close> returns a list \<open>events\<close> that carries, column by column
  (\<open>id\<close>, \<open>aggregate_type\<close>, \<open>aggregate_id\<close>, \<open>event_type\<close>, \<open>payload\<close>, \<open>headers\<close>,
  \<open>created_at\<close>, \<open>topic\<close>), a list \<open>sel\<close> of rows of the table such that \<open>sel\<close>
  followed by some \<open>rest\<close> is exactly the rows with null \<open>published_at\<close> and
  \<open>attempts < 10\<close> (that no other transaction has locked; all of them when the relay
  runs alone), in ascending order of \<open>created_at\<close>, and \<open>sel\<close> is cut at the batch
  size. A row whose attempts were at 10 or more in any earlier state \<open>t0\<close> of the
  table (ids below the sequence, as the sequence hands them out), whatever relay
  ticks, inserts and re-queues happened since, is not among the events. The relay's
  configuration is a batch of 50 every 500 ms.
\<close>

theorem GetUnpublishedEvents_selection:
  assumes "io ''GetUnpublishedEvents'' = None" and "io ''GetUnpublishedEvents.Scan'' = None"
    and "0 \<le> batch"
  shows "\<exists>events sel rest.
           GetUnpublishedEvents io locked tbl batch = Inr events \<and>
           map Id events = map Id sel \<and>
           map AggregateType events = map AggregateType sel \<and>
           map AggregateID events = map AggregateID sel \<and>
           map EventType events = map EventType sel \<and>
           map Payload events = map Payload sel \<and>
           map Headers events = map Headers sel \<and>
           map CreatedAt events = map CreatedAt sel \<and>
           map Topic events = map Topic sel \<and>
           mset (sel @ rest) =
             mset (filter (\<lambda>r. PublishedAt r = None \<and> Attempts r < 10 \<and> Id r \<notin> locked)
                     (rows tbl)) \<and>
           sorted (map CreatedAt (sel @ rest)) \<and>
           length sel = min (nat batch) (length (sel @ rest)) \<and>
           (\<forall>t0 i. (\<forall>r\<in>set (rows t0). Id r < seq t0) \<and>
                   (\<exists>r\<in>set (rows t0). Id r = i) \<and>
                   (\<forall>r\<in>set (rows t0). Id r = i \<longrightarrow> 10 \<le> Attempts r) \<and>
                   outbox_reach t0 tbl
                    \<longrightarrow> i \<notin> Id ` set events) \<and>
           batchSize NewOutboxProcessor = 50 \<and> interval_ms NewOutboxProcessor = 500"
proof -
  let ?sel = "select_unpublished locked tbl (nat batch)"
  let ?events = "map scan_event ?sel"
  from select_props[of locked tbl "nat batch"] obtain rest where
    rest: "mset (?sel @ rest) = mset (filter (selectable locked) (rows tbl))"
      "sorted (map CreatedAt (?sel @ rest))"
      "length ?sel = min (nat batch) (length (filter (selectable locked) (rows tbl)))"
    by blast
  from rest(1) have "length (?sel @ rest) = length (filter (selectable locked) (rows tbl))"
    by (metis size_mset)
  with rest(3) have len: "length ?sel = min (nat batch) (length (?sel @ rest))" by simp
  have ms: "mset (?sel @ rest) =
            mset (filter (\<lambda>r. PublishedAt r = None \<and> Attempts r < 10 \<and> Id r \<notin> locked)
                    (rows tbl))"
    using rest(1) by (simp only: selectable_where)
  have res: "GetUnpublishedEvents io locked tbl batch = Inr ?events"
    using assms by (simp add: GetUnpublishedEvents_def)
  have dead: "i \<notin> Id ` set ?events"
    if "(\<forall>r\<in>set (rows t0). Id r < seq t0) \<and> (\<exists>r\<in>set (rows t0). Id r = i) \<and>
        (\<forall>r\<in>set (rows t0). Id r = i \<longrightarrow> 10 \<le> Attempts r) \<and> outbox_reach t0 tbl" for t0 i
  proof -
    from that have "ids_from_seq t0" "dead_lettered t0 i" "outbox_reach t0 tbl"
      by (simp_all add: ids_from_seq_iff dead_lettered_iff)
    then have "dead_lettered tbl i" using reach_inv by blast
    then have "i \<notin> Id ` set ?sel" by (rule dead_not_selected)
    moreover have "Id ` set ?events = Id ` set ?sel"
      by (metis scan_event_columns(1) set_map)
    ultimately show ?thesis by simp
  qed
  have cfg: "batchSize NewOutboxProcessor = 50 \<and> interval_ms NewOutboxProcessor = 500"
    by (simp add: NewOutboxProcessor_def)
  show ?thesis
    apply (rule exI[of _ ?events], rule exI[of _ ?sel], rule exI[of _ rest])
    using res ms rest(2) len dead cfg scan_event_columns[of ?sel]
    by (intro conjI allI impI) (assumption | blast)+
qed

text \<open>
  The example table after one relay tick whose broker refuses every message: the two
  selected rows have one more attempt each, the dead-lettered row 2 is untouched.
\<close>

lemmas outbox_tick_defs =
  outbox_example_tick_def outbox_example_later_def outbox_example_def processBatch_def
  NewOutboxProcessor_def GetUnpublishedEvents_def select_unpublished_def selectable_def
  scan_event_def OutboxEvent_zero_def no_faults_def json_Unmarshal_map_def keep_last_def
  MarkEventFailed_def int32_ok_def

lemma outbox_example_later_rows:
  "map Id (rows outbox_example_later) = [1, 2, 4, 3] \<and>
   map Attempts (rows outbox_example_later) = [0, 10, 4, 1] \<and>
   map PublishedAt (rows outbox_example_later) = [Some 11, None, None, None] \<and>
   map CreatedAt (rows outbox_example_later) = [10, 20, 40, 30]"
  by (simp add: outbox_tick_defs)

lemma outbox_example_later_reach: "outbox_reach outbox_example outbox_example_later"
proof -
  have "processBatch NewOutboxProcessor no_faults (\<lambda>i. no_faults)
          (\<lambda>topic message. Some (DbError ''error sending message'')) 50 {} outbox_example =
        (fst outbox_example_tick, outbox_example_later, snd (snd outbox_example_tick))"
    by (simp add: outbox_example_tick_def outbox_example_later_def)
  with reach_refl[of outbox_example] show ?thesis by (rule reach_tick)
qed

theorem GetUnpublishedEvents_selection_witness:
  "ids_from_seq outbox_example \<and> dead_lettered outbox_example 2 \<and>
   outbox_reach outbox_example outbox_example_later \<and>
   map Attempts (rows outbox_example_later) = [0, 10, 4, 1] \<and>
   (\<exists>events. GetUnpublishedEvents no_faults {} outbox_example_later 50 = Inr events \<and>
          map Id events = [3, 4] \<and> 2 \<notin> Id ` set events)"
proof -
  have a: "no_faults ''GetUnpublishedEvents'' = None"
    and b: "no_faults ''GetUnpublishedEvents.Scan'' = None" and c: "(0::int) \<le> 50"
    by (simp_all add: no_faults_def)
  have ids: "ids_from_seq outbox_example"
    by (simp add: ids_from_seq_def outbox_example_def OutboxEvent_zero_def)
  have dl: "dead_lettered outbox_example 2"
    by (simp add: dead_lettered_def attempts_of_def outbox_example_def OutboxEvent_zero_def)
  note re = outbox_example_later_reach
  from GetUnpublishedEvents_selection[OF a b c, of "{}" outbox_example_later]
  obtain events where
    ev: "GetUnpublishedEvents no_faults {} outbox_example_later 50 = Inr events"
      "\<forall>t0 i. (\<forall>r\<in>set (rows t0). Id r < seq t0) \<and> (\<exists>r\<in>set (rows t0). Id r = i) \<and>
              (\<forall>r\<in>set (rows t0). Id r = i \<longrightarrow> 10 \<le> Attempts r) \<and>
              outbox_reach t0 outbox_example_later
               \<longrightarrow> i \<notin> Id ` set events"
    by blast
  from ids dl re have
    "(\<forall>r\<in>set (rows outbox_example). Id r < seq outbox_example) \<and>
     (\<exists>r\<in>set (rows outbox_example). Id r = 2) \<and>
     (\<forall>r\<in>set (rows outbox_example). Id r = 2 \<longrightarrow> 10 \<le> Attempts r) \<and>
     outbox_reach outbox_example outbox_example_later"
    by (simp add: ids_from_seq_iff dead_lettered_iff)
  with ev(2) have no2: "2 \<notin> Id ` set events" by blast
  have "GetUnpublishedEvents no_faults {} outbox_example_later 50 =
        Inr (map scan_event (select_unpublished {} outbox_example_later 50))"
    by (simp add: GetUnpublishedEvents_def no_faults_def)
  moreover have "map Id (map scan_event (select_unpublished {} outbox_example_later 50)) = [3, 4]"
    by (simp add: outbox_tick_defs)
  ultimately have "map Id events = [3, 4]" using ev(1) by simp
  with ev(1) no2 ids dl re outbox_example_later_rows show ?thesis by auto
qed

section \<open>Inbox deduplication: at most one effect, bounded retries\<close>

lemma runs_simps [simp]:
  "runs [] = []"
  "runs (RunAction n # es) = n # runs es"
  "runs (Sleep d # es) = runs es"
  by (simp_all add: runs_def)








section \<open>Payment service: the decision and its transaction\<close>

text \<open>Go's \<open>x % 2 == 0\<close> is evenness, for negative \<open>x\<close> too.\<close>

lemma smod_2_even: "((x::int) smod 2 = 0) = even x"
proof -
  have "x smod 2 = sgn x * (\<bar>x\<bar> mod 2)" by (simp add: smod_int_alt_def)
  moreover have "(sgn x * (\<bar>x\<bar> mod 2) = 0) = even x"
    by (cases "x = 0") (auto simp: sgn_if)
  ultimately show ?thesis by simp
qed

lemma never_refused:
  "pay_Status p = ''FAIL'' \<or> pay_Status p = ''PAID'' \<Longrightarrow>
   \<not> idx_payments_order_id_unique_refuses tbl p"
  by (auto simp: idx_payments_order_id_unique_refuses_def
        idx_payments_order_id_unique_predicate_def)

lemma GetOrderByID_existing:
  "payments_of db oid \<noteq> [] \<Longrightarrow> io ''GetOrderByID'' = None \<Longrightarrow>
   \<exists>p. GetOrderByID io (payments db) oid = Inr (Some p)"
  by (cases "filter (\<lambda>r. pay_OrderID r = oid) (payments db)")
     (auto simp: GetOrderByID_def payments_of_def)

lemmas payment_tx_defs =
  ProcessPayment_tx_def Create_def payment_emitEvent_def SaveOutboxEvent_def
  PaymentFailedEvent_json_def PaymentSucceededEvent_json_def Payment_zero_def
  OutboxEvent_zero_def

lemma ProcessPayment_tx_fault:
  assumes "ProcessPayment_tx io uuid now db event = (err, db')"
    and "io ''Begin'' \<noteq> None \<or> io ''Create'' \<noteq> None \<or> io ''SaveOutboxEvent'' \<noteq> None \<or>
         io ''Commit'' \<noteq> None"
  shows "err \<noteq> None \<and> payments db' = payments db \<and>
         rows (payment_outbox db') = rows (payment_outbox db)"
  using assms unfolding payment_tx_defs
  by (auto simp: Let_def split: option.splits if_splits) metis+

lemma ProcessPayment_tx_ok:
  assumes "ProcessPayment_tx io uuid now db event = (err, db')"
    and "io ''Begin'' = None" "io ''Create'' = None" "io ''SaveOutboxEvent'' = None"
        "io ''Commit'' = None"
  shows "err = None \<and>
         (\<exists>p e. payments db' = payments db @ [p] \<and>
                rows (payment_outbox db') = rows (payment_outbox db) @ [e] \<and>
                written uuid now event p e)"
proof (cases "even (ir_OrderID event)")
  case True
  let ?p = "\<lparr>pay_ID = payments_seq db, pay_OrderID = ir_OrderID event,
              pay_UserID = ir_UserID event, pay_Status = ''FAIL'',
              pay_Amount = ir_Amount event, pay_TransactionID = uuid,
              pay_CreatedAt = now, pay_UpdatedAt = now\<rparr>"
  let ?e = "\<lparr>Id = seq (payment_outbox db), AggregateType = [], AggregateID = [],
              EventType = [],
              Payload = JObj [(''event'', JStr ''PaymentFailed''),
                 (''payload'', PaymentFailedEvent_json (ir_OrderID event) 0 (ir_Amount event) now)],
              Headers = JObj [], CreatedAt = now, PublishedAt = None, Attempts = 0,
              LastError = None, Topic = ''payment_events''\<rparr>"
  from assms True have "err = None" "payments db' = payments db @ [?p]"
    "rows (payment_outbox db') = rows (payment_outbox db) @ [?e]"
    unfolding payment_tx_defs
    by (auto simp: smod_2_even never_refused Let_def)
  moreover have "written uuid now event ?p ?e"
    using True
    by (simp add: written_def payment_event_row_def PaymentFailedEvent_json_def)
  ultimately show ?thesis by blast
next
  case False
  let ?p = "\<lparr>pay_ID = payments_seq db, pay_OrderID = ir_OrderID event,
              pay_UserID = ir_UserID event, pay_Status = ''PAID'',
              pay_Amount = ir_Amount event, pay_TransactionID = uuid,
              pay_CreatedAt = now, pay_UpdatedAt = now\<rparr>"
  let ?e = "\<lparr>Id = seq (payment_outbox db), AggregateType = [], AggregateID = [],
              EventType = [],
              Payload = JObj [(''event'', JStr ''PaymentSucceeded''),
                 (''payload'', PaymentSucceededEvent_json (ir_OrderID event) 0 (ir_Amount event) now)],
              Headers = JObj [], CreatedAt = now, PublishedAt = None, Attempts = 0,
              LastError = None, Topic = ''payment_events''\<rparr>"
  from assms False have "err = None" "payments db' = payments db @ [?p]"
    "rows (payment_outbox db') = rows (payment_outbox db) @ [?e]"
    unfolding payment_tx_defs
    by (auto simp: smod_2_even never_refused Let_def)
  moreover have "written uuid now event ?p ?e"
    using False
    by (simp add: written_def payment_event_row_def PaymentSucceededEvent_json_def)
  ultimately show ?thesis by blast
qed

text \<open>
  C5. For any outcome \<open>(err, db')\<close> of \<open>ProcessPayment\<close>: when the lookup runs and a
  payment row exists for the order id, the function returns nil and the database is
  unchanged; otherwise either neither table has a new row, or the function returned nil
  and the payments table has exactly one new row and the outbox exactly one new row,
  written together: the row carries the event's order id, user id and amount and the
  generated UUID as transaction id, with status \<open>FAIL\<close> and a \<open>PaymentFailed\<close> event
  when the order id is even, status \<open>PAID\<close> and a \<open>PaymentSucceeded\<close> event when it is
  odd; and with no driver fault and no existing row the function does write them.
\<close>

theorem ProcessPayment_outcome:
  assumes "ProcessPayment io uuid now db event = (err, db')"
  shows "(payments_of db (ir_OrderID event) \<noteq> [] \<and> io ''GetOrderByID'' = None
            \<longrightarrow> err = None \<and> db' = db) \<and>
         (payments db' = payments db \<and> rows (payment_outbox db') = rows (payment_outbox db) \<or>
          err = None \<and>
          (\<exists>p e. payments db' = payments db @ [p] \<and>
                 rows (payment_outbox db') = rows (payment_outbox db) @ [e] \<and>
                 written uuid now event p e)) \<and>
         (payments_of db (ir_OrderID event) = [] \<and> io = no_faults
            \<longrightarrow> err = None \<and> payments db' \<noteq> payments db)"
proof -
  have short_circuit: "err = None \<and> db' = db"
    if "payments_of db (ir_OrderID event) \<noteq> [] \<and> io ''GetOrderByID'' = None"
  proof -
    from that obtain p where "GetOrderByID io (payments db) (ir_OrderID event) = Inr (Some p)"
      using GetOrderByID_existing by blast
    with assms show ?thesis by (simp add: ProcessPayment_def)
  qed
  have atomic:
    "payments db' = payments db \<and> rows (payment_outbox db') = rows (payment_outbox db) \<or>
     err = None \<and>
     (\<exists>p e. payments db' = payments db @ [p] \<and>
            rows (payment_outbox db') = rows (payment_outbox db) @ [e] \<and>
            written uuid now event p e)"
  proof (cases "GetOrderByID io (payments db) (ir_OrderID event)")
    case (Inl e)
    with assms show ?thesis by (simp add: ProcessPayment_def)
  next
    case (Inr found)
    show ?thesis
    proof (cases found)
      case (Some existing)
      with Inr assms show ?thesis by (simp add: ProcessPayment_def)
    next
      case None
      from None Inr assms have tx: "ProcessPayment_tx io uuid now db event = (err, db')"
        by (simp add: ProcessPayment_def)
      show ?thesis
      proof (cases "io ''Begin'' = None \<and> io ''Create'' = None \<and>
                    io ''SaveOutboxEvent'' = None \<and> io ''Commit'' = None")
        case True
        then have "io ''Begin'' = None" "io ''Create'' = None" "io ''SaveOutboxEvent'' = None"
          "io ''Commit'' = None" by simp_all
        from ProcessPayment_tx_ok[OF tx this] show ?thesis by simp
      next
        case False
        then have "io ''Begin'' \<noteq> None \<or> io ''Create'' \<noteq> None \<or>
          io ''SaveOutboxEvent'' \<noteq> None \<or> io ''Commit'' \<noteq> None" by simp
        from ProcessPayment_tx_fault[OF tx this] show ?thesis by simp
      qed
    qed
  qed
  have persists: "err = None \<and> payments db' \<noteq> payments db"
    if h: "payments_of db (ir_OrderID event) = [] \<and> io = no_faults"
  proof -
    from h have "GetOrderByID io (payments db) (ir_OrderID event) = Inr None"
      by (simp add: GetOrderByID_def payments_of_def no_faults_def)
    with assms have tx: "ProcessPayment_tx io uuid now db event = (err, db')"
      by (simp add: ProcessPayment_def)
    from h have "io ''Begin'' = None" "io ''Create'' = None" "io ''SaveOutboxEvent'' = None"
      "io ''Commit'' = None" by (simp_all add: no_faults_def)
    from ProcessPayment_tx_ok[OF tx this] show ?thesis by auto
  qed
  from short_circuit atomic persists show ?thesis by blast
qed

lemmas payment_eval_defs =
  ProcessPayment_def GetOrderByID_def payment_tx_defs payments_of_def written_def
  payment_event_row_def payment_db_empty_def InventoryReserved_1_def InventoryReserved_2_def
  no_faults_def

theorem ProcessPayment_outcome_witness:
  "(\<exists>db'. ProcessPayment no_faults ''uuid-a'' 0 payment_db_empty InventoryReserved_1 = (None, db') \<and>
          map pay_Status (payments db') = [''PAID''] \<and>
          map pay_TransactionID (payments db') = [''uuid-a''] \<and>
          length (rows (payment_outbox db')) = 1 \<and>
          ProcessPayment no_faults ''uuid-b'' 1 db' InventoryReserved_1 = (None, db')) \<and>
   (\<exists>db'. ProcessPayment no_faults ''uuid-a'' 0 payment_db_empty InventoryReserved_2 = (None, db') \<and>
          map pay_Status (payments db') = [''FAIL''])"
proof (intro conjI)
  obtain err db' where
    r: "ProcessPayment no_faults ''uuid-a'' 0 payment_db_empty InventoryReserved_1 = (err, db')"
    by (cases "ProcessPayment no_faults ''uuid-a'' 0 payment_db_empty InventoryReserved_1") auto
  have none: "payments_of payment_db_empty (ir_OrderID InventoryReserved_1) = []"
    by (simp add: payments_of_def payment_db_empty_def)
  from ProcessPayment_outcome[OF r] none have e: "err = None" by blast
  from ProcessPayment_outcome[OF r] none obtain p ev where
    w: "payments db' = payments payment_db_empty @ [p]"
       "rows (payment_outbox db') = rows (payment_outbox payment_db_empty) @ [ev]"
       "written ''uuid-a'' 0 InventoryReserved_1 p ev"
    by blast
  from w(1,3) have st: "map pay_Status (payments db') = [''PAID'']"
    "map pay_TransactionID (payments db') = [''uuid-a'']"
    by (simp_all add: written_def payment_db_empty_def InventoryReserved_1_def)
  from w(2) have len: "length (rows (payment_outbox db')) = 1"
    by (simp add: payment_db_empty_def)
  obtain err2 db2 where
    r2: "ProcessPayment no_faults ''uuid-b'' 1 db' InventoryReserved_1 = (err2, db2)"
    by (cases "ProcessPayment no_faults ''uuid-b'' 1 db' InventoryReserved_1") auto
  from w(1,3) have "payments_of db' (ir_OrderID InventoryReserved_1) \<noteq> []"
    by (simp add: payments_of_def written_def)
  with ProcessPayment_outcome[OF r2] have "err2 = None \<and> db2 = db'"
    by (simp add: no_faults_def)
  with r r2 e st len
  show "\<exists>db'. ProcessPayment no_faults ''uuid-a'' 0 payment_db_empty InventoryReserved_1 = (None, db') \<and>
          map pay_Status (payments db') = [''PAID''] \<and>
          map pay_TransactionID (payments db') = [''uuid-a''] \<and>
          length (rows (payment_outbox db')) = 1 \<and>
          ProcessPayment no_faults ''uuid-b'' 1 db' InventoryReserved_1 = (None, db')"
    by (intro exI[of _ db']) simp
next
  show "\<exists>db'. ProcessPayment no_faults ''uuid-a'' 0 payment_db_empty InventoryReserved_2 = (None, db') \<and>
          map pay_Status (payments db') = [''FAIL'']"
    by (simp add: payment_eval_defs smod_2_even never_refused Let_def)
qed


section \<open>Payment service: the partial unique index\<close>

lemmas payment_concurrent_defs =
  ProcessPayment_concurrent_def GetOrderByID_def payment_tx_defs payments_of_def
  payment_db_empty_def InventoryReserved_1_def no_faults_def
  idx_payments_order_id_unique_refuses_def idx_payments_order_id_unique_predicate_def

text \<open>
  C6. The claim: the partial unique index keeps the successful payments of an order
  to one row. The code: the index predicate is \<open>status = 'SUCCEEDED'\<close>, and the service
  writes \<open>PAID\<close>. Two handlers of the same delivery that both pass the existence check
  both insert: the order ends with two \<open>PAID\<close> rows, neither of them under the
  index.
\<close>

theorem index_admits_two_PAID_rows:
  "fst (ProcessPayment_concurrent ''uuid-a'' ''uuid-b'' 0 payment_db_empty InventoryReserved_1) =
     (None, None) \<and>
   map pay_Status
     (payments_of
        (snd (ProcessPayment_concurrent ''uuid-a'' ''uuid-b'' 0 payment_db_empty
                InventoryReserved_1)) 1) = [''PAID'', ''PAID''] \<and>
   map idx_payments_order_id_unique_predicate
     (payments_of
        (snd (ProcessPayment_concurrent ''uuid-a'' ''uuid-b'' 0 payment_db_empty
                InventoryReserved_1)) 1) = [False, False]"
  by (simp add: payment_concurrent_defs smod_2_even Let_def)

section \<open>Catalog: the conditional stock decrement\<close>

text \<open>The table after the conditional update has run.\<close>

lemma DecreaseStock_Inr:
  assumes "DecreaseStock io now tbl id' q = Inr (price, tbl')"
  shows "list_ex (decrement_applies id' q) tbl \<and>
         tbl' = map (\<lambda>r. if decrement_applies id' q r
                          then r\<lparr>prod_StockQuantity := prod_StockQuantity r - q,
                                 prod_UpdatedAt := now\<rparr>
                          else r) tbl"
proof -
  from assms have ne: "filter (decrement_applies id' q) tbl \<noteq> []"
    and upd: "tbl' = map (\<lambda>r. if decrement_applies id' q r
                          then r\<lparr>prod_StockQuantity := prod_StockQuantity r - q,
                                 prod_UpdatedAt := now\<rparr>
                          else r) tbl"
    by (auto simp: DecreaseStock_def split: option.splits list.splits if_splits)
  from ne have "list_ex (decrement_applies id' q) tbl"
    by (auto simp: filter_empty_conv list_ex_iff)
  with upd show ?thesis by simp
qed

lemma DecreaseStock_insufficient:
  assumes "io ''DecreaseStock.QueryRow'' = None" "io ''DecreaseStock.Exec'' = None"
    and "list_ex (\<lambda>r. prod_ID r = id') tbl" and "\<not> list_ex (decrement_applies id' q) tbl"
  shows "DecreaseStock io now tbl id' q = Inl ErrInsufficientStock"
proof -
  from assms(3) obtain p ps where "filter (\<lambda>r. prod_ID r = id') tbl = p # ps"
    by (cases "filter (\<lambda>r. prod_ID r = id') tbl") (auto simp: filter_empty_conv list_ex_iff)
  moreover from assms(4) have "filter (decrement_applies id' q) tbl = []"
    by (auto simp: filter_empty_conv list_ex_iff)
  moreover from assms(4) have
    "\<not> list_ex (\<lambda>r. decrement_applies id' q r \<and> \<not> int32_ok (prod_StockQuantity r - q)) tbl"
    by (auto simp: list_ex_iff)
  ultimately show ?thesis using assms(1,2) by (simp add: DecreaseStock_def)
qed

lemma DecreaseStock_nonneg:
  assumes "DecreaseStock io now tbl id' q = Inr (price, tbl')" and "stock_nonneg tbl"
  shows "stock_nonneg tbl'"
proof -
  from DecreaseStock_Inr[OF assms(1)] have
    upd: "tbl' = map (\<lambda>r. if decrement_applies id' q r
                          then r\<lparr>prod_StockQuantity := prod_StockQuantity r - q,
                                 prod_UpdatedAt := now\<rparr>
                          else r) tbl"
    by simp
  show ?thesis
    unfolding stock_nonneg_def list_all_iff
  proof
    fix r' assume "r' \<in> set tbl'"
    with upd obtain r where r: "r \<in> set tbl"
      "r' = (if decrement_applies id' q r
             then r\<lparr>prod_StockQuantity := prod_StockQuantity r - q, prod_UpdatedAt := now\<rparr>
             else r)"
      by auto
    show "0 \<le> prod_StockQuantity r'"
    proof (cases "decrement_applies id' q r")
      case True
      then have "q \<le> prod_StockQuantity r" by (simp add: decrement_applies_def)
      with r True show ?thesis by simp
    next
      case False
      with r assms(2) show ?thesis by (auto simp: stock_nonneg_def list_all_iff)
    qed
  qed
qed

lemma DecreaseStock_seq_nonneg:
  "stock_nonneg tbl \<Longrightarrow> stock_nonneg (DecreaseStock_seq io now tbl requests)"
proof (induction requests arbitrary: tbl)
  case Nil
  then show ?case by simp
next
  case (Cons req requests)
  obtain i q where req: "req = (i, q)" by (cases req)
  show ?case
  proof (cases "DecreaseStock io now tbl i q")
    case (Inl err)
    with Cons req show ?thesis by simp
  next
    case (Inr res)
    obtain price tbl' where res: "res = (price, tbl')" by (cases res)
    with Inr Cons.prems have "stock_nonneg tbl'" by (auto intro: DecreaseStock_nonneg)
    with Cons.IH Inr res req show ?thesis by simp
  qed
qed

text \<open>
  C7. The repository's \<open>DecreaseStock\<close> succeeds only when some row of that id has a
  stock of at least the requested quantity and is not soft-deleted, and then exactly
  those rows lose the quantity; when the product exists and no row meets the condition
  (and the driver does not fail), no row is affected and the result is
  \<open>ErrInsufficientStock\<close>; a table whose stock levels are all at least zero keeps them
  so, after one call and after any sequence of calls, for any quantities.
\<close>

theorem DecreaseStock_conditional_update:
  shows "(\<forall>price tbl'. DecreaseStock io now tbl id' q = Inr (price, tbl') \<longrightarrow>
            list_ex (\<lambda>r. prod_ID r = id' \<and> q \<le> prod_StockQuantity r \<and> prod_DeletedAt r = None) tbl \<and>
            tbl' = map (\<lambda>r. if prod_ID r = id' \<and> q \<le> prod_StockQuantity r \<and> prod_DeletedAt r = None
                             then r\<lparr>prod_StockQuantity := prod_StockQuantity r - q,
                                    prod_UpdatedAt := now\<rparr>
                             else r) tbl \<and>
            (stock_nonneg tbl \<longrightarrow> stock_nonneg tbl')) \<and>
         (io ''DecreaseStock.QueryRow'' = None \<and> io ''DecreaseStock.Exec'' = None \<and>
          list_ex (\<lambda>r. prod_ID r = id') tbl \<and>
          \<not> list_ex (\<lambda>r. prod_ID r = id' \<and> q \<le> prod_StockQuantity r \<and> prod_DeletedAt r = None) tbl
            \<longrightarrow> DecreaseStock io now tbl id' q = Inl ErrInsufficientStock) \<and>
         (stock_nonneg tbl \<longrightarrow> stock_nonneg (DecreaseStock_seq io now tbl requests))"
proof -
  have da: "decrement_applies id' q =
            (\<lambda>r. prod_ID r = id' \<and> q \<le> prod_StockQuantity r \<and> prod_DeletedAt r = None)"
    by (auto simp: decrement_applies_def)
  have ok: "list_ex (decrement_applies id' q) tbl \<and>
            tbl' = map (\<lambda>r. if decrement_applies id' q r
                          then r\<lparr>prod_StockQuantity := prod_StockQuantity r - q,
                                 prod_UpdatedAt := now\<rparr>
                          else r) tbl \<and>
            (stock_nonneg tbl \<longrightarrow> stock_nonneg tbl')"
    if "DecreaseStock io now tbl id' q = Inr (price, tbl')" for price tbl'
    using DecreaseStock_Inr[OF that] DecreaseStock_nonneg[OF that] by simp
  have insufficient:
    "io ''DecreaseStock.QueryRow'' = None \<and> io ''DecreaseStock.Exec'' = None \<and>
     list_ex (\<lambda>r. prod_ID r = id') tbl \<and> \<not> list_ex (decrement_applies id' q) tbl
       \<longrightarrow> DecreaseStock io now tbl id' q = Inl ErrInsufficientStock"
    using DecreaseStock_insufficient by blast
  have seq: "stock_nonneg tbl \<longrightarrow> stock_nonneg (DecreaseStock_seq io now tbl requests)"
    using DecreaseStock_seq_nonneg by blast
  from ok insufficient seq show ?thesis unfolding da by blast
qed

lemmas product_eval_defs =
  DecreaseStock_def decrement_applies_def int32_ok_def product_1_def no_faults_def
  stock_nonneg_def

theorem DecreaseStock_conditional_update_witness:
  "map prod_StockQuantity (snd (projr (DecreaseStock no_faults 1 [product_1] 1 3))) = [0] \<and>
   DecreaseStock no_faults 1 [product_1] 1 4 = Inl ErrInsufficientStock \<and>
   DecreaseStock no_faults 1 [product_1\<lparr>prod_DeletedAt := Some 0\<rparr>] 1 1 = Inl ErrInsufficientStock \<and>
   stock_nonneg (DecreaseStock_seq no_faults 1 [product_1] [(1, 2), (1, 2), (1, 1)]) \<and>
   map prod_StockQuantity (DecreaseStock_seq no_faults 1 [product_1] [(1, 2), (1, 2), (1, 1)]) = [0]"
proof -
  have nn: "stock_nonneg [product_1]" by (simp add: product_eval_defs)
  have f: "no_faults ''DecreaseStock.QueryRow'' = None \<and> no_faults ''DecreaseStock.Exec'' = None"
    by (simp add: no_faults_def)
  have a: "list_ex (\<lambda>r. prod_ID r = 1) [product_1] \<and>
     \<not> list_ex (\<lambda>r. prod_ID r = 1 \<and> 4 \<le> prod_StockQuantity r \<and> prod_DeletedAt r = None) [product_1]"
    by (simp add: product_1_def)
  have b: "list_ex (\<lambda>r. prod_ID r = 1) [product_1\<lparr>prod_DeletedAt := Some 0\<rparr>] \<and>
     \<not> list_ex (\<lambda>r. prod_ID r = 1 \<and> 1 \<le> prod_StockQuantity r \<and> prod_DeletedAt r = None)
          [product_1\<lparr>prod_DeletedAt := Some 0\<rparr>]"
    by (simp add: product_1_def)
  from DecreaseStock_conditional_update[of no_faults 1 "[product_1]" 1 4] f a
  have c1: "DecreaseStock no_faults 1 [product_1] 1 4 = Inl ErrInsufficientStock" by blast
  from DecreaseStock_conditional_update[of no_faults 1 "[product_1\<lparr>prod_DeletedAt := Some 0\<rparr>]" 1 1] f b
  have c2: "DecreaseStock no_faults 1 [product_1\<lparr>prod_DeletedAt := Some 0\<rparr>] 1 1 =
            Inl ErrInsufficientStock" by blast
  from DecreaseStock_conditional_update[of no_faults 1 "[product_1]" 1 3 "[(1, 2), (1, 2), (1, 1)]"] nn
  have c3: "stock_nonneg (DecreaseStock_seq no_faults 1 [product_1] [(1, 2), (1, 2), (1, 1)])"
    by blast
  have c4: "map prod_StockQuantity (snd (projr (DecreaseStock no_faults 1 [product_1] 1 3))) = [0]"
    by (simp add: product_eval_defs)
  have c5: "map prod_StockQuantity
              (DecreaseStock_seq no_faults 1 [product_1] [(1, 2), (1, 2), (1, 1)]) = [0]"
    by (simp add: product_eval_defs)
  from c1 c2 c3 c4 c5 show ?thesis by simp
qed

section \<open>Outbox relay: the event id of a published message\<close>

text \<open>
  Decoding into \<open>any\<close> keeps an integer below \<open>2^53\<close> as it is and rounds a larger
  one to the nearest \<open>float64\<close>.
\<close>

lemma bit_length_bounds: "2 ^ k \<le> n \<Longrightarrow> n < 2 ^ Suc k \<Longrightarrow> bit_length n = Suc k"
proof (induction k arbitrary: n)
  case 0
  then have "n = 1" by simp
  then show ?case by (simp add: bit_length.simps[of "Suc 0"] bit_length.simps[of 0])
next
  case (Suc k)
  from Suc.prems have "2 ^ k \<le> n div 2" "n div 2 < 2 ^ Suc k" "n \<noteq> 0" by auto
  with Suc.IH[of "n div 2"] show ?case by (simp add: bit_length.simps[of n])
qed

lemma float64_round_example: "float64_round 9007199254740993 = 9007199254740992"
proof -
  have "bit_length 9007199254740993 = Suc 53"
    by (rule bit_length_bounds) simp_all
  then show ?thesis by (simp add: float64_round_def Let_def)
qed

lemma json_any_example: "json_any (JNum 9007199254740993) = JNum 9007199254740992"
  by (simp add: float64_of_int_def float64_round_example)

lemma float64_of_int_small:
  "\<bar>n\<bar> < 9007199254740992 \<Longrightarrow> float64_of_int n = Some n"
proof -
  assume a: "\<bar>n\<bar> < 9007199254740992"
  then have small: "nat \<bar>n\<bar> < 9007199254740992" by simp
  then have r: "float64_round (nat \<bar>n\<bar>) = nat \<bar>n\<bar>" by (simp add: float64_round_def)
  have "(9007199254740992::nat) < 2 ^ 1024" by simp
  with small have "nat \<bar>n\<bar> < 2 ^ 1024" by (rule less_trans)
  with r show ?thesis by (simp add: float64_of_int_def sgn_if)
qed

lemmas order_created_defs =
  tick_order_created_def outbox_order_created_def processBatch_def NewOutboxProcessor_def
  GetUnpublishedEvents_def select_unpublished_def selectable_def scan_event_def
  SaveOutboxEvent_def CreateOrder_outboxEvent_def OutboxEvent_zero_def no_faults_def
  MarkEventPublished_def payload_event_id_def envelope_event_id_def
  json_Unmarshal_map_def keep_last_def float64_of_int_small

text \<open>
  C8. The claim is that the object under \<open>payload\<close> of every message the relay
  publishes carries an \<open>event_id\<close> equal to the outbox row id. The code misses it:
  \<open>CreateOrder\<close> stores the \<open>{event, payload}\<close> envelope of order 5 in outbox row 7, and
  the relay tick that follows publishes one message, with \<open>event_id = 7\<close> beside \<open>event\<close>
  and \<open>payload\<close>, where \<open>payloadMap["event_id"] = event.Id\<close> writes into the decoded
  envelope; the \<open>event_id\<close> inside the payload object is 5, the order id the producer
  wrote, and not the row id.
\<close>

theorem payload_event_id_is_order_id:
  "map Id (rows outbox_order_created) = [7] \<and>
   map envelope_event_id (snd (snd tick_order_created)) = [Some (JNum 7)] \<and>
   map payload_event_id (snd (snd tick_order_created)) = [Some (JNum 5)] \<and>
   map payload_event_id (snd (snd tick_order_created)) \<noteq> [Some (JNum 7)]"
  by (simp add: order_created_defs)
section \<open>Catalog read cache\<close>

text \<open>
  C9. The claim: a miss followed by a repository read fills the cache, and a hit is
  answered from the cache without the repository. The code: whenever the repository
  read succeeds and \<open>encoding/json\<close> works (the product marshals, a cached value
  decodes), \<open>cachedProductService.FindByID\<close> calls the repository, returns the
  repository's product and leaves Redis exactly as it was: on a miss nothing is
  stored, on a hit the cached value is not what is returned.
\<close>

theorem cached_FindByID_ignores_cache:
  assumes "FindByID io tbl id' = Inr product"
    and "marshal c product = Inr data"
    and "\<forall>val. redis_Get rio r (product_key id') = Inr val \<longrightarrow> snd (unmarshal c val) = None"
  shows "cached_FindByID c rio io r tbl id' = (Inr product, r, True)"
proof (cases "redis_Get rio r (product_key id')")
  case (Inl err)
  with assms(1,2) show ?thesis by (simp add: cached_FindByID_def)
next
  case (Inr val)
  with assms(3) have "snd (unmarshal c val) = None" by simp
  then obtain cached where "unmarshal c val = (cached, None)"
    by (cases "unmarshal c val") auto
  with Inr assms(1,2) show ?thesis by (simp add: cached_FindByID_def)
qed

lemma product_key_1: "product_key 1 = ''product:1''"
  by code_simp

lemma product_key_1204: "product_key 1204 = ''product:1204''"
  by code_simp

lemmas cache_eval_defs =
  FindByID_def GetByID_def codec_example_def redis_Get_def product_1_def no_faults_def
  product_key_1

theorem cached_FindByID_ignores_cache_witness:
  "cached_FindByID codec_example no_faults no_faults Map.empty [product_1] 1 =
     (Inr product_1, Map.empty, True) \<and>
   cached_FindByID codec_example no_faults no_faults
       [''product:1'' \<mapsto> (''{}'', 600)] [product_1] 1 =
     (Inr product_1, [''product:1'' \<mapsto> (''{}'', 600)], True) \<and>
   fst (unmarshal codec_example ''{}'') \<noteq> product_1"
proof -
  have f: "FindByID no_faults [product_1] 1 = Inr product_1"
    by (simp add: cache_eval_defs)
  have m: "marshal codec_example product_1 = Inr ''{}''" by (simp add: codec_example_def)
  have u: "\<forall>val. redis_Get no_faults r (product_key 1) = Inr val \<longrightarrow>
             snd (unmarshal codec_example val) = None" for r
    by (simp add: codec_example_def)
  from cached_FindByID_ignores_cache[OF f m u]
  have "cached_FindByID codec_example no_faults no_faults r [product_1] 1 =
          (Inr product_1, r, True)" for r .
  moreover have "fst (unmarshal codec_example ''{}'') \<noteq> product_1"
    by (simp add: codec_example_def product_1_def)
  ultimately show ?thesis by simp
qed

text \<open>The part of the claim that holds: a successful mutation deletes the key.\<close>

lemma cached_Delete_removes_key:
  assumes "cached_Delete rio io now r db id' = (None, r', db')" and "rio ''Del'' = None"
  shows "r' (product_key id') = None"
  using assms
  by (auto simp: cached_Delete_def redis_Del_def split: prod.splits option.splits)

lemma cached_DecreaseStock_removes_key:
  assumes "cached_DecreaseStock rio io now r db id' q = ((res, None), r', db')"
    and "rio ''Del'' = None"
  shows "r' (product_key id') = None"
  using assms
  by (auto simp: cached_DecreaseStock_def redis_Del_def split: prod.splits option.splits)

section \<open>Catalog: the transaction of the gRPC stock mutation\<close>

text \<open>
  C10. Whatever \<open>productService.DecreaseStock\<close> returns, the committed \<open>products\<close>
  table is the one it started from. On the path that returns \<open>success\<close> the repository
  call did succeed inside the transaction, and that transaction is left among the open
  ones, neither committed nor rolled back, holding the decremented table; once it is
  discarded the committed table is still the old one.
\<close>

theorem DecreaseStock_service_never_commits:
  assumes "DecreaseStock_service io now db id' q = (res, db')"
  shows "products db' = products db \<and>
         products (discard_open_txs db') = products db \<and>
         open_txs (discard_open_txs db') = [] \<and>
         (res = (''success'', None) \<longrightarrow>
            (\<exists>price tx. DecreaseStock io now (products db) id' q = Inr (price, tx) \<and>
                        open_txs db' = open_txs db @ [tx]))"
proof (cases "io ''Begin''")
  case (Some err)
  with assms show ?thesis
    by (auto simp: DecreaseStock_service_def discard_open_txs_def)
next
  case None
  show ?thesis
  proof (cases "DecreaseStock io now (products db) id' q")
    case (Inl err)
    with None assms show ?thesis
      by (auto simp: DecreaseStock_service_def discard_open_txs_def)
  next
    case (Inr ok)
    obtain price tx where ok: "ok = (price, tx)" by (cases ok)
    with Inr None assms have "res = (''success'', None)"
      and "db' = db\<lparr>open_txs := open_txs db @ [tx]\<rparr>"
      by (simp_all add: DecreaseStock_service_def)
    with Inr ok show ?thesis by (simp add: discard_open_txs_def)
  qed
qed

lemmas product_service_defs =
  DecreaseStock_service_def DecreaseStock_def decrement_applies_def int32_ok_def
  product_1_def product_db_1_def no_faults_def discard_open_txs_def

theorem DecreaseStock_service_never_commits_witness:
  "fst (DecreaseStock_service no_faults 1 product_db_1 1 1) = (''success'', None) \<and>
   map prod_StockQuantity (products (snd (DecreaseStock_service no_faults 1 product_db_1 1 1))) = [3] \<and>
   map (map prod_StockQuantity) (open_txs (snd (DecreaseStock_service no_faults 1 product_db_1 1 1))) = [[2]] \<and>
   map prod_StockQuantity
     (products (discard_open_txs (snd (DecreaseStock_service no_faults 1 product_db_1 1 1)))) = [3]"
proof -
  obtain res db' where r: "DecreaseStock_service no_faults 1 product_db_1 1 1 = (res, db')"
    by (cases "DecreaseStock_service no_faults 1 product_db_1 1 1") auto
  have s: "res = (''success'', None)" using r by (simp add: product_service_defs)
  from DecreaseStock_service_never_commits[OF r] s obtain price tx where
    p: "products db' = products product_db_1"
       "products (discard_open_txs db') = products product_db_1"
       "DecreaseStock no_faults 1 (products product_db_1) 1 1 = Inr (price, tx)"
       "open_txs db' = open_txs product_db_1 @ [tx]"
    by blast
  from p(3) have "map prod_StockQuantity tx = [2]"
    by (auto simp: product_service_defs)
  with p(1,2,4) s r show ?thesis
    by (simp add: product_db_1_def product_1_def)
qed


end
